theory Spec2Isabelle
  imports Main "HOL-Library.Sublist"
begin

section \<open>E-Library Organizer: a shallow embedding of \<open>app.py\<close>\<close>

text \<open>
  The development follows \<open>src/app.py\<close>: \<open>extract_pdf_metadata\<close>, \<open>fetch_book_info\<close>,
  \<open>get_recommendations\<close>, the upload flow that builds \<open>book_data\<close>, the library search
  filter and the favourite-genre computation of the recommendation page.

  Python strings are modelled as \<open>string\<close>: lists of \<open>char\<close>, a character being its
  code point, 0 to 255 (the Latin-1 range). On these code points \<open>lower\<close>, \<open>isdigit\<close>
  and \<open>isspace\<close> below are Python's \<open>str.lower\<close>, \<open>str.isdigit\<close> and the whitespace
  of \<open>str.split()\<close> and \<open>str.strip()\<close>, accented letters, superscript digits and the
  no-break space included. Text with code points above 255 is not a value of the type.
  The PDF reader (PyPDF2), the HTTP client (requests) and the UI toolkit (streamlit) are
  collaborators: what they hand to the code is an input of the model, what the code
  sends to them is recorded in an event list.
\<close>

subsection \<open>Exceptions\<close>

datatype py_error =
  OSError | PdfReadError | AttributeError | IndexError | KeyError | TypeError
  | ValueError | RequestException

subsection \<open>Strings\<close>

text \<open>
  The characters \<open>str.lower\<close> changes, and what it changes them to: \<open>A\<close> to \<open>Z\<close>, and the
  accented capitals U+00C0 to U+00DE without the multiplication sign U+00D7; each goes
  to the code point 32 above it.
\<close>

definition upper_letters :: string where
  "upper_letters =
     ''ABCDEFGHIJKLMNOPQRSTUVWXYZ'' @
     [
      CHR 0xC0, CHR 0xC1, CHR 0xC2, CHR 0xC3, CHR 0xC4, CHR 0xC5, CHR 0xC6, CHR 0xC7,
      CHR 0xC8, CHR 0xC9, CHR 0xCA, CHR 0xCB, CHR 0xCC, CHR 0xCD, CHR 0xCE, CHR 0xCF,
      CHR 0xD0, CHR 0xD1, CHR 0xD2, CHR 0xD3, CHR 0xD4, CHR 0xD5, CHR 0xD6, CHR 0xD8,
      CHR 0xD9, CHR 0xDA, CHR 0xDB, CHR 0xDC, CHR 0xDD, CHR 0xDE]"

definition lower_letters :: string where
  "lower_letters =
     ''abcdefghijklmnopqrstuvwxyz'' @
     [
      CHR 0xE0, CHR 0xE1, CHR 0xE2, CHR 0xE3, CHR 0xE4, CHR 0xE5, CHR 0xE6, CHR 0xE7,
      CHR 0xE8, CHR 0xE9, CHR 0xEA, CHR 0xEB, CHR 0xEC, CHR 0xED, CHR 0xEE, CHR 0xEF,
      CHR 0xF0, CHR 0xF1, CHR 0xF2, CHR 0xF3, CHR 0xF4, CHR 0xF5, CHR 0xF6, CHR 0xF8,
      CHR 0xF9, CHR 0xFA, CHR 0xFB, CHR 0xFC, CHR 0xFD, CHR 0xFE]"

definition lower_char :: "char \<Rightarrow> char" where
  "lower_char c =
     (case map_of (zip upper_letters lower_letters) c of
        Some d \<Rightarrow> d
      | None \<Rightarrow> c)"

text \<open>\<open>s.lower()\<close>\<close>

definition lower :: "string \<Rightarrow> string" where
  "lower s = map lower_char s"

text \<open>\<open>c.isdigit()\<close>: \<open>0\<close> to \<open>9\<close> and the superscripts two, three and one.\<close>

definition isdigit :: "char \<Rightarrow> bool" where
  "isdigit c = (c \<in> set (''0123456789'' @ [CHR 0xB2, CHR 0xB3, CHR 0xB9]))"

text \<open>
  The characters \<open>str.split()\<close> and \<open>str.strip()\<close> treat as whitespace: the controls
  U+0009 to U+000D and U+001C to U+001F, the space, the next-line control U+0085 and
  the no-break space U+00A0.
\<close>

definition isspace :: "char \<Rightarrow> bool" where
  "isspace c =
     (c \<in> set [CHR 0x09, CHR 0x0A, CHR 0x0B, CHR 0x0C, CHR 0x0D,
                 CHR 0x1C, CHR 0x1D, CHR 0x1E, CHR 0x1F, CHR '' '',
                 CHR 0x85, CHR 0xA0])"

text \<open>\<open>k in s\<close> on strings: \<open>k\<close> occurs in \<open>s\<close> as a contiguous substring.\<close>

fun str_in :: "string \<Rightarrow> string \<Rightarrow> bool" where
  "str_in k [] = (k = [])"
| "str_in k (c # cs) = (prefix k (c # cs) \<or> str_in k cs)"

text \<open>\<open>any(p(x) for x in xs)\<close>: a loop that stops at the first hit.\<close>

fun any_py :: "('a \<Rightarrow> bool) \<Rightarrow> 'a list \<Rightarrow> bool" where
  "any_py p [] = False"
| "any_py p (x # xs) = (if p x then True else any_py p xs)"

text \<open>\<open>s.split(sep)\<close> for a one-character separator: always at least one piece.\<close>

fun split_on :: "char \<Rightarrow> string \<Rightarrow> string list" where
  "split_on sep [] = [[]]"
| "split_on sep (c # cs) =
     (if c = sep then [] # split_on sep cs
      else (case split_on sep cs of
              [] \<Rightarrow> [[c]]
            | w # ws \<Rightarrow> (c # w) # ws))"

text \<open>
  \<open>s.split()\<close>: the maximal runs of non-whitespace characters. The first argument
  holds the characters of the run being read, last one first.
\<close>

fun split_ws_from :: "string \<Rightarrow> string \<Rightarrow> string list" where
  "split_ws_from cur [] = (if cur = [] then [] else [rev cur])"
| "split_ws_from cur (c # cs) =
     (if isspace c
      then (if cur = [] then split_ws_from [] cs else rev cur # split_ws_from [] cs)
      else split_ws_from (c # cur) cs)"

definition split_ws :: "string \<Rightarrow> string list" where
  "split_ws s = split_ws_from [] s"

text \<open>\<open>s.strip()\<close>\<close>

definition strip :: "string \<Rightarrow> string" where
  "strip s = rev (dropWhile isspace (rev (dropWhile isspace s)))"

subsection \<open>Resume detection (\<open>extract_pdf_metadata\<close>, the \<open>is_resume\<close> expression)\<close>

definition resume_keywords :: "string list" where
  "resume_keywords =
     [''resume'', ''cv'', ''curriculum vitae'', ''professional experience'',
      ''education'', ''skills'', ''work experience'']"

definition is_resume :: "string \<Rightarrow> bool" where
  "is_resume first_page_text =
     any_py (\<lambda>keyword. str_in keyword (lower first_page_text)) resume_keywords"

subsection \<open>The PDF reader as the code sees it\<close>

text \<open>
  \<open>reader.metadata\<close> is the document information or \<open>None\<close> (a PDF without an
  information dictionary); its \<open>title\<close> and \<open>author\<close> are strings or \<open>None\<close>. Each
  entry of \<open>pages\<close> is what \<open>extract_text()\<close> does on that page: it returns a string
  or raises. Opening the file or constructing the reader may raise as well.
\<close>

record document_information =
  info_title :: "string option"
  info_author :: "string option"

record pdf_reader =
  metadata :: "document_information option"
  pages :: "(py_error + string) list"

datatype pdf_file = Open_raises py_error | Opened pdf_reader

text \<open>The dictionary \<open>extract_pdf_metadata\<close> returns.\<close>

record metadata_dict =
  md_title :: string
  md_author :: string
  md_pages :: nat
  md_is_resume :: bool
  md_content_preview :: string

text \<open>What the code tells its collaborators: \<open>st.error(...)\<close> and \<open>requests.get(url)\<close>.\<close>

datatype event = St_error string py_error | Requests_get string

text \<open>\<open>xs[i]\<close> on a Python sequence, for a non-negative index.\<close>

definition py_index :: "'a list \<Rightarrow> nat \<Rightarrow> py_error + 'a" where
  "py_index xs i = (if i < length xs then Inr (xs ! i) else Inl IndexError)"

text \<open>
  \<open>reader.pages[0].extract_text() if len(reader.pages) > 0 else ""\<close>
\<close>

definition first_page_text_of :: "pdf_reader \<Rightarrow> py_error + string" where
  "first_page_text_of reader =
     (if length (pages reader) > 0
      then (case py_index (pages reader) 0 of
              Inl e \<Rightarrow> Inl e
            | Inr page \<Rightarrow> page)
      else Inr [])"

text \<open>
  The \<open>for line in lines[:3]\<close> loop: the first line with at least two tokens and no
  digit replaces the author, and the loop breaks.
\<close>

fun author_loop :: "string list \<Rightarrow> string \<Rightarrow> string" where
  "author_loop [] author = author"
| "author_loop (line # lines) author =
     (if length (split_ws line) \<ge> 2 \<and> \<not> any_py isdigit line
      then strip line
      else author_loop lines author)"

text \<open>\<open>x if x else d\<close> for an optional string: \<open>None\<close> and \<open>""\<close> are both falsy.\<close>

definition or_else :: "string option \<Rightarrow> string \<Rightarrow> string" where
  "or_else x d = (case x of None \<Rightarrow> d | Some s \<Rightarrow> if s \<noteq> [] then s else d)"

text \<open>
  The body of the \<open>try\<close> block of \<open>extract_pdf_metadata\<close>. \<open>stem\<close> is
  \<open>Path(file_path).stem\<close>. Reading \<open>info.title\<close> when \<open>info\<close> is \<open>None\<close> raises
  \<open>AttributeError\<close>.
\<close>

definition extract_try :: "string \<Rightarrow> pdf_file \<Rightarrow> py_error + metadata_dict" where
  "extract_try stem file =
     (case file of
        Open_raises e \<Rightarrow> Inl e
      | Opened reader \<Rightarrow>
          (case first_page_text_of reader of
             Inl e \<Rightarrow> Inl e
           | Inr first_page_text \<Rightarrow>
               (case metadata reader of
                  None \<Rightarrow> Inl AttributeError
                | Some info \<Rightarrow>
                    (let title = or_else (info_title info) stem;
                         author = or_else (info_author info) ''Unknown''
                     in if is_resume first_page_text
                        then Inr \<lparr>md_title = (if title = stem then ''Resume/CV'' else title),
                                  md_author =
                                    author_loop (take 3 (split_on (CHR 0x0A) first_page_text)) author,
                                  md_pages = length (pages reader),
                                  md_is_resume = True,
                                  md_content_preview = take 500 first_page_text\<rparr>
                        else Inr \<lparr>md_title = title,
                                  md_author = author,
                                  md_pages = length (pages reader),
                                  md_is_resume = False,
                                  md_content_preview = take 500 first_page_text\<rparr>))))"

text \<open>\<open>extract_pdf_metadata\<close>: the \<open>try\<close> block and its \<open>except Exception\<close> handler.\<close>

definition extract_pdf_metadata :: "string \<Rightarrow> pdf_file \<Rightarrow> metadata_dict \<times> event list" where
  "extract_pdf_metadata stem file =
     (case extract_try stem file of
        Inr md \<Rightarrow> (md, [])
      | Inl e \<Rightarrow>
          (\<lparr>md_title = stem, md_author = ''Unknown'', md_pages = 0,
            md_is_resume = False, md_content_preview = []\<rparr>,
           [St_error ''Error extracting PDF metadata: '' e]))"

subsection \<open>\<open>fetch_book_info\<close>\<close>

text \<open>The dictionary \<open>fetch_book_info\<close> returns.\<close>

record book_info =
  bi_title :: string
  bi_author :: string
  bi_genre :: string
  bi_description :: string
  bi_thumbnail :: "string option"

text \<open>
  The JSON document of the catalog, as far as the code reads it: the optional key
  \<open>items\<close>, a list of items with an optional key \<open>volumeInfo\<close>, whose keys are all
  optional.
\<close>

record volume_info =
  vi_title :: "string option"
  vi_authors :: "string list option"
  vi_categories :: "string list option"
  vi_description :: "string option"
  vi_imageLinks :: "string option option"

type_synonym books_response = "volume_info option list option"

text \<open>\<open>d.get(key, default)\<close>\<close>

definition dict_get :: "'a option \<Rightarrow> 'a \<Rightarrow> 'a" where
  "dict_get v d = (case v of None \<Rightarrow> d | Some x \<Rightarrow> x)"

text \<open>
  The part of the \<open>try\<close> block after \<open>data = response.json()\<close>: \<open>Inr None\<close> when the
  \<open>if\<close> is not taken, \<open>Inr (Some r)\<close> when the block returns \<open>r\<close>, \<open>Inl e\<close> when it
  raises.
\<close>

definition first_volume :: "string \<Rightarrow> string \<Rightarrow> books_response \<Rightarrow> py_error + book_info option" where
  "first_volume title author data =
     (case data of
        None \<Rightarrow> Inr None
      | Some items \<Rightarrow>
          if length items > 0
          then (case py_index items 0 of
                  Inl e \<Rightarrow> Inl e
                | Inr None \<Rightarrow> Inl KeyError
                | Inr (Some info) \<Rightarrow>
                    (case py_index (dict_get (vi_authors info) [author]) 0 of
                       Inl e \<Rightarrow> Inl e
                     | Inr a \<Rightarrow>
                         (case py_index (dict_get (vi_categories info) [''Uncategorized'']) 0 of
                            Inl e \<Rightarrow> Inl e
                          | Inr g \<Rightarrow>
                              Inr (Some \<lparr>bi_title = dict_get (vi_title info) title,
                                         bi_author = a,
                                         bi_genre = g,
                                         bi_description =
                                           dict_get (vi_description info) ''No description available'',
                                         bi_thumbnail = dict_get (vi_imageLinks info) None\<rparr>))))
          else Inr None)"

definition categories :: "(string \<times> string list) list" where
  "categories =
     [(''Business'', [''business'', ''management'', ''finance'', ''marketing'', ''economics'']),
      (''Technology'', [''programming'', ''software'', ''computer'', ''technology'', ''engineering'']),
      (''Science'', [''science'', ''physics'', ''chemistry'', ''biology'', ''research'']),
      (''Education'', [''education'', ''learning'', ''teaching'', ''academic'', ''school'']),
      (''Other'', [])]"

text \<open>
  \<open>for category, keywords in categories.items()\<close>: the dictionary iterates in
  insertion order; the loop returns at the first category one of whose keywords is in
  the text.
\<close>

fun category_loop :: "(string \<times> string list) list \<Rightarrow> string \<Rightarrow> string option" where
  "category_loop [] content_lower = None"
| "category_loop ((category, keywords) # rest) content_lower =
     (if any_py (\<lambda>keyword. str_in keyword content_lower) keywords
      then Some category
      else category_loop rest content_lower)"

text \<open>The code after the \<open>try\<close> block (lines 106 to 132).\<close>

definition categorize :: "string \<Rightarrow> string \<Rightarrow> string \<Rightarrow> book_info" where
  "categorize title author content_preview =
     (case category_loop categories (lower content_preview) of
        Some category \<Rightarrow>
          \<lparr>bi_title = title, bi_author = author, bi_genre = category,
           bi_description = take 200 content_preview @ ''...'',
           bi_thumbnail = None\<rparr>
      | None \<Rightarrow>
          \<lparr>bi_title = title, bi_author = author, bi_genre = ''Document'',
           bi_description = take 200 content_preview @ ''...'',
           bi_thumbnail = Some ''https://cdn-icons-png.flaticon.com/512/337/337946.png''\<rparr>)"

text \<open>\<open>s.replace(" ", "+")\<close>\<close>

definition replace_space :: "string \<Rightarrow> string" where
  "replace_space s = map (\<lambda>c. if c = CHR '' '' then CHR ''+'' else c) s"

definition books_url :: "string \<Rightarrow> string \<Rightarrow> string \<Rightarrow> string" where
  "books_url api_key title author =
     ''https://www.googleapis.com/books/v1/volumes?q='' @
       replace_space (title @ '' '' @ author) @ ''&key='' @ api_key"

text \<open>
  \<open>requests_get url\<close> is what \<open>requests.get(url)\<close> followed by \<open>response.json()\<close>
  gives: the parsed document, or an exception. \<open>catalog_lookup\<close> is the \<open>try\<close> block
  of \<open>fetch_book_info\<close>; the handler and the code after it are in \<open>fetch_book_info\<close>.
\<close>

definition catalog_lookup ::
  "string \<Rightarrow> (string \<Rightarrow> py_error + books_response) \<Rightarrow> string \<Rightarrow> string \<Rightarrow>
   py_error + book_info option" where
  "catalog_lookup api_key requests_get title author =
     (case requests_get (books_url api_key title author) of
        Inl e \<Rightarrow> Inl e
      | Inr data \<Rightarrow> first_volume title author data)"

definition fetch_book_info ::
  "string \<Rightarrow> (string \<Rightarrow> py_error + books_response) \<Rightarrow>
   string \<Rightarrow> string \<Rightarrow> string \<Rightarrow> bool \<Rightarrow> book_info \<times> event list" where
  "fetch_book_info api_key requests_get title author content_preview resume =
     (if resume
      then (\<lparr>bi_title = title, bi_author = author, bi_genre = ''Resume/CV'',
             bi_description =
               ''Professional document for '' @ author @ ''. '' @ take 150 content_preview @ ''...'',
             bi_thumbnail = Some ''https://cdn-icons-png.flaticon.com/512/3135/3135692.png''\<rparr>,
            [])
      else (case catalog_lookup api_key requests_get title author of
              Inr (Some found) \<Rightarrow> (found, [Requests_get (books_url api_key title author)])
            | Inr None \<Rightarrow>
                (categorize title author content_preview,
                 [Requests_get (books_url api_key title author)])
            | Inl e \<Rightarrow>
                (categorize title author content_preview,
                 [Requests_get (books_url api_key title author),
                  St_error ''Error fetching book info: '' e])))"

subsection \<open>The upload flow and the library\<close>

text \<open>The dictionary \<open>book_data\<close>: one entry of \<open>st.session_state.library\<close>.\<close>

record book_data =
  bd_file_path :: string
  bd_title :: string
  bd_author :: string
  bd_genre :: string
  bd_pages :: nat
  bd_description :: string
  bd_thumbnail :: "string option"

text \<open>Lines 161 to 180: extract, fetch, combine.\<close>

definition upload_book ::
  "string \<Rightarrow> (string \<Rightarrow> py_error + books_response) \<Rightarrow>
   string \<Rightarrow> string \<Rightarrow> pdf_file \<Rightarrow> book_data \<times> event list" where
  "upload_book api_key requests_get file_path stem file =
     (let (metadata, ev1) = extract_pdf_metadata stem file;
          (info, ev2) =
            fetch_book_info api_key requests_get (md_title metadata) (md_author metadata)
              (md_content_preview metadata) (md_is_resume metadata)
      in (\<lparr>bd_file_path = file_path,
            bd_title = bi_title info,
            bd_author = bi_author info,
            bd_genre = bi_genre info,
            bd_pages = md_pages metadata,
            bd_description = bi_description info,
            bd_thumbnail = bi_thumbnail info\<rparr>,
          ev1 @ ev2))"

text \<open>The "Add to Library" button: \<open>st.session_state.library.append(book_data)\<close>.\<close>

definition add_to_library :: "book_data list \<Rightarrow> book_data \<Rightarrow> book_data list" where
  "add_to_library library book = library @ [book]"

subsection \<open>\<open>get_recommendations\<close>\<close>

fun recommendations_loop :: "book_data list \<Rightarrow> string \<Rightarrow> book_data list \<Rightarrow> book_data list" where
  "recommendations_loop [] genre recommendations = recommendations"
| "recommendations_loop (book # library) genre recommendations =
     recommendations_loop library genre
       (if bd_genre book = genre \<and> book \<notin> set recommendations
        then recommendations @ [book]
        else recommendations)"

definition get_recommendations :: "string \<Rightarrow> book_data list \<Rightarrow> book_data list" where
  "get_recommendations genre library = take 3 (recommendations_loop library genre [])"

subsection \<open>The library search (\<open>filtered_books\<close>)\<close>

definition filtered_books :: "book_data list \<Rightarrow> string \<Rightarrow> book_data list" where
  "filtered_books library search_query =
     (if search_query \<noteq> []
      then filter (\<lambda>book.
             str_in (lower search_query) (lower (bd_title book)) \<or>
             str_in (lower search_query) (lower (bd_author book)) \<or>
             str_in (lower search_query) (lower (bd_genre book))) library
      else library)"

subsection \<open>The favourite genre\<close>

text \<open>
  \<open>genre_count\<close> is a dictionary; it iterates in insertion order, so it is an
  association list with a key's entry where the key was first stored.
\<close>

fun count_genre :: "(string \<times> nat) list \<Rightarrow> string \<Rightarrow> (string \<times> nat) list" where
  "count_genre [] genre = [(genre, 1)]"
| "count_genre ((g, n) # rest) genre =
     (if g = genre then (g, n + 1) # rest else (g, n) # count_genre rest genre)"

fun genre_count_loop :: "book_data list \<Rightarrow> (string \<times> nat) list \<Rightarrow> (string \<times> nat) list" where
  "genre_count_loop [] genre_count = genre_count"
| "genre_count_loop (book # library) genre_count =
     genre_count_loop library (count_genre genre_count (bd_genre book))"

text \<open>\<open>genre_count.get\<close>, read as a number (every key \<open>max\<close> asks for is present).\<close>

definition count_of :: "(string \<times> nat) list \<Rightarrow> string \<Rightarrow> nat" where
  "count_of genre_count g = (case map_of genre_count g of None \<Rightarrow> 0 | Some n \<Rightarrow> n)"

text \<open>
  \<open>max(xs, key=f)\<close>: the running best is replaced only by a strictly larger item, so
  the first of several maximal items is returned; on an empty sequence \<open>max\<close> raises
  \<open>ValueError\<close>.
\<close>

fun max_from :: "('a \<Rightarrow> nat) \<Rightarrow> 'a \<Rightarrow> 'a list \<Rightarrow> 'a" where
  "max_from key best [] = best"
| "max_from key best (x # xs) =
     (if key x > key best then max_from key x xs else max_from key best xs)"

definition py_max :: "('a \<Rightarrow> nat) \<Rightarrow> 'a list \<Rightarrow> py_error + 'a" where
  "py_max key xs = (case xs of [] \<Rightarrow> Inl ValueError | x # rest \<Rightarrow> Inr (max_from key x rest))"

definition favorite_genre :: "book_data list \<Rightarrow> py_error + string" where
  "favorite_genre library =
     (let genre_count = genre_count_loop library []
      in py_max (count_of genre_count) (map fst genre_count))"

subsection \<open>The upload page with the catalog's values as they come\<close>

text \<open>
  In the catalog's JSON a key may be absent, hold \<open>null\<close> or hold a value, and
  \<open>dict.get\<close> falls back to its default only for an absent key: for a key that holds
  \<open>null\<close> it returns \<open>None\<close> and nothing raises. The records above type every value as
  a string. The records here carry Python values, \<open>None\<close> or a string, for the entries
  the code copies from the catalog; with them the upload page is followed to line 197,
  where the description is sliced. A text value is \<open>string option\<close> (\<open>None\<close> is Python's
  \<open>None\<close>); a key of \<open>volumeInfo\<close> is an option of that (\<open>None\<close> is an absent key).
\<close>

record volume_json =
  vj_title :: "string option option"
  vj_authors :: "string option list option"
  vj_categories :: "string option list option"
  vj_description :: "string option option"
  vj_imageLinks :: "string option option"

type_synonym books_json = "volume_json option list option"

text \<open>The dictionary \<open>fetch_book_info\<close> returns, with Python values.\<close>

record book_info_py =
  py_title :: "string option"
  py_author :: "string option"
  py_genre :: "string option"
  py_description :: "string option"
  py_thumbnail :: "string option"

text \<open>A dictionary all of whose text values are strings.\<close>

definition as_py :: "book_info \<Rightarrow> book_info_py" where
  "as_py info =
     \<lparr>py_title = Some (bi_title info), py_author = Some (bi_author info),
      py_genre = Some (bi_genre info), py_description = Some (bi_description info),
      py_thumbnail = bi_thumbnail info\<rparr>"

text \<open>Lines 94 to 102, as \<open>first_volume\<close>.\<close>

definition first_volume_py ::
  "string \<Rightarrow> string \<Rightarrow> books_json \<Rightarrow> py_error + book_info_py option" where
  "first_volume_py title author data =
     (case data of
        None \<Rightarrow> Inr None
      | Some items \<Rightarrow>
          if length items > 0
          then (case py_index items 0 of
                  Inl e \<Rightarrow> Inl e
                | Inr None \<Rightarrow> Inl KeyError
                | Inr (Some info) \<Rightarrow>
                    (case py_index (dict_get (vj_authors info) [Some author]) 0 of
                       Inl e \<Rightarrow> Inl e
                     | Inr a \<Rightarrow>
                         (case py_index
                                 (dict_get (vj_categories info) [Some ''Uncategorized'']) 0 of
                            Inl e \<Rightarrow> Inl e
                          | Inr g \<Rightarrow>
                              Inr (Some \<lparr>py_title = dict_get (vj_title info) (Some title),
                                         py_author = a,
                                         py_genre = g,
                                         py_description =
                                           dict_get (vj_description info)
                                             (Some ''No description available''),
                                         py_thumbnail = dict_get (vj_imageLinks info) None\<rparr>))))
          else Inr None)"

definition catalog_lookup_py ::
  "string \<Rightarrow> (string \<Rightarrow> py_error + books_json) \<Rightarrow> string \<Rightarrow> string \<Rightarrow>
   py_error + book_info_py option" where
  "catalog_lookup_py api_key requests_get title author =
     (case requests_get (books_url api_key title author) of
        Inl e \<Rightarrow> Inl e
      | Inr data \<Rightarrow> first_volume_py title author data)"

text \<open>\<open>fetch_book_info\<close>, lines 74 to 132.\<close>

definition fetch_book_info_py ::
  "string \<Rightarrow> (string \<Rightarrow> py_error + books_json) \<Rightarrow>
   string \<Rightarrow> string \<Rightarrow> string \<Rightarrow> bool \<Rightarrow> book_info_py \<times> event list" where
  "fetch_book_info_py api_key requests_get title author content_preview resume =
     (if resume
      then (as_py
             \<lparr>bi_title = title, bi_author = author, bi_genre = ''Resume/CV'',
              bi_description =
                ''Professional document for '' @ author @ ''. '' @
                  take 150 content_preview @ ''...'',
              bi_thumbnail = Some ''https://cdn-icons-png.flaticon.com/512/3135/3135692.png''\<rparr>,
            [])
      else (case catalog_lookup_py api_key requests_get title author of
              Inr (Some found) \<Rightarrow> (found, [Requests_get (books_url api_key title author)])
            | Inr None \<Rightarrow>
                (as_py (categorize title author content_preview),
                 [Requests_get (books_url api_key title author)])
            | Inl e \<Rightarrow>
                (as_py (categorize title author content_preview),
                 [Requests_get (books_url api_key title author),
                  St_error ''Error fetching book info: '' e])))"

text \<open>The dictionary \<open>book_data\<close>, with Python values.\<close>

record book_data_py =
  pd_file_path :: string
  pd_title :: "string option"
  pd_author :: "string option"
  pd_genre :: "string option"
  pd_pages :: nat
  pd_description :: "string option"
  pd_thumbnail :: "string option"

text \<open>
  The upload page from line 161 to line 197. No \<open>try\<close> encloses these lines: an
  exception here ends the run of the page. Line 197 evaluates
  \<open>book_data['description'][:200]\<close>, and slicing \<open>None\<close> raises \<open>TypeError\<close>. The other
  values are only formatted or tested, which \<open>None\<close> allows.
\<close>

definition upload_page ::
  "string \<Rightarrow> (string \<Rightarrow> py_error + books_json) \<Rightarrow>
   string \<Rightarrow> string \<Rightarrow> pdf_file \<Rightarrow> py_error + (book_data_py \<times> event list)" where
  "upload_page api_key requests_get file_path stem file =
     (let (metadata, ev1) = extract_pdf_metadata stem file;
          (info, ev2) =
            fetch_book_info_py api_key requests_get (md_title metadata) (md_author metadata)
              (md_content_preview metadata) (md_is_resume metadata);
          book_data =
            \<lparr>pd_file_path = file_path,
             pd_title = py_title info,
             pd_author = py_author info,
             pd_genre = py_genre info,
             pd_pages = md_pages metadata,
             pd_description = py_description info,
             pd_thumbnail = py_thumbnail info\<rparr>
      in case pd_description book_data of
           None \<Rightarrow> Inl TypeError
         | Some description \<Rightarrow> Inr (book_data, ev1 @ ev2))"

text \<open>A typed catalog document and a typed entry, read as Python values.\<close>

definition volume_as_json :: "volume_info \<Rightarrow> volume_json" where
  "volume_as_json info =
     \<lparr>vj_title = map_option Some (vi_title info),
      vj_authors = map_option (map Some) (vi_authors info),
      vj_categories = map_option (map Some) (vi_categories info),
      vj_description = map_option Some (vi_description info),
      vj_imageLinks = vi_imageLinks info\<rparr>"

definition response_as_json :: "books_response \<Rightarrow> books_json" where
  "response_as_json data = map_option (map (map_option volume_as_json)) data"

definition entry_as_py :: "book_data \<Rightarrow> book_data_py" where
  "entry_as_py book =
     \<lparr>pd_file_path = bd_file_path book,
      pd_title = Some (bd_title book),
      pd_author = Some (bd_author book),
      pd_genre = Some (bd_genre book),
      pd_pages = bd_pages book,
      pd_description = Some (bd_description book),
      pd_thumbnail = bd_thumbnail book\<rparr>"

subsection \<open>Specification vocabulary\<close>

text \<open>
  A list without its repetitions, each element kept where it first occurs. It is used
  only to state what the loops of \<open>get_recommendations\<close> and of the genre count compute.
\<close>

definition first_occurrences :: "'a list \<Rightarrow> 'a list" where
  "first_occurrences xs = rev (remdups (rev xs))"

section \<open>Properties\<close>

subsection \<open>Library functions\<close>

text \<open>
  \<open>sublist k s\<close> is the library's \<open>\<exists>ps ss. s = ps @ k @ ss\<close>: \<open>k\<close> occurs in \<open>s\<close> as a
  contiguous substring. The search \<open>str_in\<close> decides it.
\<close>

lemma str_in_sublist: "str_in k s = sublist k s"
  by (induction s) (auto simp: sublist_Cons_right)

lemma any_py_iff: "any_py p xs = (\<exists>x\<in>set xs. p x)"
  by (induction xs) auto

text \<open>
  The character functions at the edges of their tables: \<open>str.lower\<close> lowers the
  accented capitals but not the multiplication sign or the sharp s, the superscript two
  is a digit, and the no-break space and the next-line control are whitespace.
\<close>

lemma lower_char_values:
  "lower_char (CHR ''Z'') = CHR ''z''" "lower_char (CHR 0xC9) = CHR 0xE9"
  "lower_char (CHR 0xDE) = CHR 0xFE" "lower_char (CHR 0xD7) = CHR 0xD7"
  "lower_char (CHR 0xDF) = CHR 0xDF" "lower_char (CHR ''5'') = CHR ''5''"
  by code_simp+

lemma isdigit_values:
  "isdigit (CHR ''7'')" "isdigit (CHR 0xB2)" "\<not> isdigit (CHR 0xBC)" "\<not> isdigit (CHR ''x'')"
  by code_simp+

lemma isspace_values:
  "isspace (CHR 0xA0)" "isspace (CHR 0x85)" "isspace (CHR 0x1C)" "\<not> isspace (CHR ''_'')"
  by code_simp+

text \<open>
  \<open>split_on\<close>: the pieces have no separator, and joining them with the separator
  gives the string back.
\<close>

lemma split_on_nonempty: "split_on sep s \<noteq> []"
  by (induction s) (auto split: list.splits)

lemma split_on_no_sep: "w \<in> set (split_on sep s) \<Longrightarrow> sep \<notin> set w"
  by (induction s arbitrary: w) (auto split: if_splits list.splits)

lemma split_on_join: "concat (map (\<lambda>w. sep # w) (split_on sep s)) = sep # s"
  by (induction s) (auto split: list.splits)

text \<open>
  \<open>split_ws\<close>: the tokens are non-empty runs without whitespace, together all the
  non-whitespace characters of the string; there is a token exactly when \<open>strip\<close>
  leaves something.
\<close>

lemma split_ws_from_tokens:
  assumes "\<forall>c \<in> set cur. \<not> isspace c" and "w \<in> set (split_ws_from cur s)"
  shows "w \<noteq> [] \<and> (\<forall>c \<in> set w. \<not> isspace c)"
  using assms
proof (induction s arbitrary: cur)
  case Nil
  then have "cur \<noteq> []" and "w = rev cur"
    by (simp_all split: if_splits)
  then show ?case
    using Nil.prems(1) by simp
next
  case (Cons c cs)
  show ?case
  proof (cases "isspace c")
    case False
    then have "w \<in> set (split_ws_from (c # cur) cs)"
      using Cons.prems(2) by simp
    moreover have "\<forall>d \<in> set (c # cur). \<not> isspace d"
      using False Cons.prems(1) by simp
    ultimately show ?thesis
      by (rule Cons.IH [rotated])
  next
    case True
    have empty: "\<forall>d \<in> set ([] :: string). \<not> isspace d"
      by simp
    show ?thesis
    proof (cases "cur = []")
      case True
      then have "w \<in> set (split_ws_from [] cs)"
        using \<open>isspace c\<close> Cons.prems(2) by simp
      then show ?thesis
        by (rule Cons.IH [OF empty])
    next
      case False
      then have "w = rev cur \<or> w \<in> set (split_ws_from [] cs)"
        using \<open>isspace c\<close> Cons.prems(2) by simp
      then show ?thesis
      proof
        assume "w = rev cur"
        then show ?thesis
          using False Cons.prems(1) by simp
      next
        assume "w \<in> set (split_ws_from [] cs)"
        then show ?thesis
          by (rule Cons.IH [OF empty])
      qed
    qed
  qed
qed

lemma split_ws_tokens: "w \<in> set (split_ws s) \<Longrightarrow> w \<noteq> [] \<and> (\<forall>c \<in> set w. \<not> isspace c)"
  unfolding split_ws_def by (rule split_ws_from_tokens) simp_all

lemma concat_split_ws_from:
  "concat (split_ws_from cur s) = rev cur @ filter (\<lambda>c. \<not> isspace c) s"
  by (induction cur s rule: split_ws_from.induct) auto

lemma concat_split_ws: "concat (split_ws s) = filter (\<lambda>c. \<not> isspace c) s"
  by (simp add: split_ws_def concat_split_ws_from)

lemma split_ws_from_Nil_iff:
  "split_ws_from cur s = [] \<longleftrightarrow> cur = [] \<and> (\<forall>c \<in> set s. isspace c)"
  by (induction s arbitrary: cur) auto

lemma split_ws_Nil_iff: "split_ws s = [] \<longleftrightarrow> (\<forall>c \<in> set s. isspace c)"
  by (simp add: split_ws_def split_ws_from_Nil_iff)

lemma dropWhile_all_iff: "(\<forall>c \<in> set (dropWhile P s). P c) \<longleftrightarrow> (\<forall>c \<in> set s. P c)"
  by (induction s) auto

lemma strip_Nil_iff: "strip s = [] \<longleftrightarrow> (\<forall>c \<in> set s. isspace c)"
  by (simp add: strip_def dropWhile_eq_Nil_conv dropWhile_all_iff)

lemma strip_tokens_nonempty: "split_ws line \<noteq> [] \<Longrightarrow> strip line \<noteq> []"
  by (simp add: split_ws_Nil_iff strip_Nil_iff)

text \<open>
  \<open>strip\<close>: the string without a leading and a trailing run of whitespace, and what is
  left neither starts nor ends with whitespace.
\<close>

lemma strip_decomposition:
  "\<exists>pre post. s = pre @ strip s @ post \<and> (\<forall>c \<in> set pre. isspace c) \<and> (\<forall>c \<in> set post. isspace c)"
proof -
  let ?d = "dropWhile isspace s"
  have d: "rev ?d = takeWhile isspace (rev ?d) @ dropWhile isspace (rev ?d)"
    by simp
  have "?d = rev (dropWhile isspace (rev ?d)) @ rev (takeWhile isspace (rev ?d))"
    using arg_cong [OF d, of rev] by (simp only: rev_append rev_rev_ident)
  then have "s = takeWhile isspace s @ strip s @ rev (takeWhile isspace (rev ?d))"
    using takeWhile_dropWhile_id [of isspace s] by (simp add: strip_def)
  moreover have "\<forall>c \<in> set (takeWhile isspace s). isspace c"
    by (auto dest: set_takeWhileD)
  moreover have "\<forall>c \<in> set (rev (takeWhile isspace (rev ?d))). isspace c"
    by (auto dest: set_takeWhileD)
  ultimately show ?thesis
    by blast
qed

lemma strip_last: "strip s \<noteq> [] \<Longrightarrow> \<not> isspace (last (strip s))"
proof -
  assume n: "strip s \<noteq> []"
  let ?r = "dropWhile isspace (rev (dropWhile isspace s))"
  have "?r \<noteq> []"
    using n by (simp add: strip_def)
  then have "\<not> isspace (hd ?r)"
    by (rule hd_dropWhile)
  moreover have "last (strip s) = hd ?r"
    using \<open>?r \<noteq> []\<close> by (simp add: strip_def last_rev)
  ultimately show ?thesis
    by simp
qed

lemma strip_hd: "strip s \<noteq> [] \<Longrightarrow> \<not> isspace (hd (strip s))"
proof
  assume n: "strip s \<noteq> []" and sp: "isspace (hd (strip s))"
  let ?d = "dropWhile isspace s"
  have "?d \<noteq> []"
    using n by (simp add: strip_Nil_iff dropWhile_eq_Nil_conv)
  then have nh: "\<not> isspace (hd ?d)"
    by (rule hd_dropWhile)
  obtain x xs where x: "strip s = x # xs"
    using n by (cases "strip s") auto
  have "strip s = rev (dropWhile isspace (rev ?d))"
    by (simp add: strip_def)
  then have "rev ?d = takeWhile isspace (rev ?d) @ rev (strip s)"
    by (metis rev_rev_ident takeWhile_dropWhile_id)
  then have "?d = strip s @ rev (takeWhile isspace (rev ?d))"
    by (metis rev_append rev_rev_ident)
  then have "hd ?d = x"
    using x by (metis append_Cons list.sel(1))
  then show False
    using nh sp x by simp
qed

lemma py_index_0: "py_index xs 0 = (case xs of [] \<Rightarrow> Inl IndexError | x # _ \<Rightarrow> Inr x)"
  by (simp add: py_index_def split: list.splits)

subsection \<open>Extraction\<close>

lemma is_resume_empty: "\<not> is_resume []"
  by (simp add: is_resume_def resume_keywords_def lower_def)

lemma first_page_text_of_cases:
  "first_page_text_of reader = (case pages reader of [] \<Rightarrow> Inr [] | page # _ \<Rightarrow> page)"
  by (simp add: first_page_text_of_def py_index_def split: list.splits)

lemma extract_pdf_metadata_ok:
  assumes "first_page_text_of reader = Inr text" and "metadata reader = Some info"
  shows "extract_pdf_metadata stem (Opened reader) =
     (\<lparr>md_title =
         (if is_resume text \<and> or_else (info_title info) stem = stem
          then ''Resume/CV'' else or_else (info_title info) stem),
       md_author =
         (if is_resume text
          then author_loop (take 3 (split_on (CHR 0x0A) text)) (or_else (info_author info) ''Unknown'')
          else or_else (info_author info) ''Unknown''),
       md_pages = length (pages reader),
       md_is_resume = is_resume text,
       md_content_preview = take 500 text\<rparr>, [])"
  using assms by (simp add: extract_pdf_metadata_def extract_try_def Let_def)

lemma extract_pdf_metadata_raises:
  assumes "extract_try stem file = Inl e"
  shows "extract_pdf_metadata stem file =
     (\<lparr>md_title = stem, md_author = ''Unknown'', md_pages = 0,
       md_is_resume = False, md_content_preview = []\<rparr>,
      [St_error ''Error extracting PDF metadata: '' e])"
  using assms by (simp add: extract_pdf_metadata_def)

subsection \<open>Resume detection\<close>

text \<open>
  The keyword test of lines 33 to 35: \<open>is_resume\<close> is true if and only if the
  lowercased text contains one of the seven keywords as a substring. When the \<open>try\<close>
  block completes (the first page's text is read and the document has metadata), the
  \<open>is_resume\<close> entry of the returned dictionary is that value.
\<close>

lemma resume_detection:
  "(is_resume text \<longleftrightarrow>
      (\<exists>keyword \<in> {''resume'', ''cv'', ''curriculum vitae'', ''professional experience'',
                     ''education'', ''skills'', ''work experience''}.
         \<exists>before after. lower text = before @ keyword @ after)) \<and>
   (first_page_text_of reader = Inr text \<and> metadata reader \<noteq> None \<longrightarrow>
      md_is_resume (fst (extract_pdf_metadata stem (Opened reader))) = is_resume text)"
proof
  show "is_resume text \<longleftrightarrow>
      (\<exists>keyword \<in> {''resume'', ''cv'', ''curriculum vitae'', ''professional experience'',
                     ''education'', ''skills'', ''work experience''}.
         \<exists>before after. lower text = before @ keyword @ after)"
    unfolding is_resume_def any_py_iff str_in_sublist sublist_def resume_keywords_def
    by simp
next
  show "first_page_text_of reader = Inr text \<and> metadata reader \<noteq> None \<longrightarrow>
      md_is_resume (fst (extract_pdf_metadata stem (Opened reader))) = is_resume text"
    by (auto simp: extract_pdf_metadata_ok)
qed

lemma resume_detection_example:
  "is_resume ''My Curriculum Vitae'' \<and>
   md_is_resume (fst (extract_pdf_metadata ''cv''
     (Opened \<lparr>metadata = Some \<lparr>info_title = None, info_author = None\<rparr>,
              pages = [Inr ''My Curriculum Vitae'']\<rparr>)))"
proof -
  have l: "lower ''My Curriculum Vitae'' = ''my '' @ ''curriculum vitae'' @ []"
    by code_simp
  have r: "is_resume ''My Curriculum Vitae''"
    using resume_detection [of "''My Curriculum Vitae''"] l by blast
  have f: "first_page_text_of \<lparr>metadata = Some \<lparr>info_title = None, info_author = None\<rparr>,
              pages = [Inr ''My Curriculum Vitae'']\<rparr> = Inr ''My Curriculum Vitae''"
    by (simp add: first_page_text_of_def py_index_def)
  show ?thesis
    using r f resume_detection [of "''My Curriculum Vitae''"
        "\<lparr>metadata = Some \<lparr>info_title = None, info_author = None\<rparr>,
              pages = [Inr ''My Curriculum Vitae'']\<rparr>" "''cv''"]
    by simp
qed

text \<open>
  Claim C2 says that for every first-page text \<open>isResume\<close> is true if and only if the
  lowercased text contains one of the keywords. The code does not do this for a PDF
  without document information: \<open>reader.metadata\<close> is \<open>None\<close>, line 37 reads
  \<open>info.title\<close> and raises \<open>AttributeError\<close> after the keyword test has succeeded, and
  the handler returns \<open>is_resume\<close> false. The first page "Curriculum Vitae" contains a
  keyword; without metadata the returned flag is false, with metadata it is true.
\<close>

theorem resume_flag_lost_without_metadata:
  "is_resume ''Curriculum Vitae'' \<and>
   sublist ''curriculum vitae'' (lower ''Curriculum Vitae'') \<and>
   first_page_text_of \<lparr>metadata = None, pages = [Inr ''Curriculum Vitae'']\<rparr> =
     Inr ''Curriculum Vitae'' \<and>
   extract_pdf_metadata ''cv'' (Opened \<lparr>metadata = None, pages = [Inr ''Curriculum Vitae'']\<rparr>) =
     (\<lparr>md_title = ''cv'', md_author = ''Unknown'', md_pages = 0,
       md_is_resume = False, md_content_preview = []\<rparr>,
      [St_error ''Error extracting PDF metadata: '' AttributeError]) \<and>
   md_is_resume (fst (extract_pdf_metadata ''cv''
     (Opened \<lparr>metadata = Some \<lparr>info_title = None, info_author = None\<rparr>,
              pages = [Inr ''Curriculum Vitae'']\<rparr>))) = True"
  by code_simp

subsection \<open>The keyword buckets\<close>

lemma category_loop_categories:
  "category_loop categories t =
     (if \<exists>k \<in> set [''business'', ''management'', ''finance'', ''marketing'', ''economics''].
           sublist k t then Some ''Business''
      else if \<exists>k \<in> set [''programming'', ''software'', ''computer'', ''technology'', ''engineering''].
           sublist k t then Some ''Technology''
      else if \<exists>k \<in> set [''science'', ''physics'', ''chemistry'', ''biology'', ''research''].
           sublist k t then Some ''Science''
      else if \<exists>k \<in> set [''education'', ''learning'', ''teaching'', ''academic'', ''school''].
           sublist k t then Some ''Education''
      else None)"
  by (simp add: categories_def any_py_iff str_in_sublist)

lemma fetch_book_info_fallback:
  assumes "\<forall>found. catalog_lookup api_key requests_get title author \<noteq> Inr (Some found)"
  shows "fst (fetch_book_info api_key requests_get title author content_preview False) =
     categorize title author content_preview"
  using assms by (simp add: fetch_book_info_def split: sum.splits option.splits)

text \<open>
  Claim C1. For a document that is not a resume and whose catalog lookup raises or
  returns no match, the genre is the first of Business, Technology, Science, Education
  one of whose keywords occurs in the lowercased content preview, and "Document" when
  none does; a preview with both "business" and "programming" is "Business"; the genre
  is never "Other".
\<close>

theorem keyword_bucket_fallback:
  assumes "\<forall>found. catalog_lookup api_key requests_get title author \<noteq> Inr (Some found)"
    and "genre =
      bi_genre (fst (fetch_book_info api_key requests_get title author content_preview False))"
  shows "genre =
     (if \<exists>k \<in> set [''business'', ''management'', ''finance'', ''marketing'', ''economics''].
           sublist k (lower content_preview) then ''Business''
      else if \<exists>k \<in> set [''programming'', ''software'', ''computer'', ''technology'', ''engineering''].
           sublist k (lower content_preview) then ''Technology''
      else if \<exists>k \<in> set [''science'', ''physics'', ''chemistry'', ''biology'', ''research''].
           sublist k (lower content_preview) then ''Science''
      else if \<exists>k \<in> set [''education'', ''learning'', ''teaching'', ''academic'', ''school''].
           sublist k (lower content_preview) then ''Education''
      else ''Document'') \<and>
     (sublist ''business'' (lower content_preview) \<and>
      sublist ''programming'' (lower content_preview) \<longrightarrow> genre = ''Business'') \<and>
     genre \<noteq> ''Other''"
proof -
  have g: "genre = bi_genre (categorize title author content_preview)"
    using assms by (simp add: fetch_book_info_fallback)
  show ?thesis
    unfolding g categorize_def category_loop_categories
    by (simp split: if_splits)
qed

theorem keyword_bucket_fallback_witness:
  "bi_genre (fst (fetch_book_info ''K'' (\<lambda>url. Inl RequestException) ''T'' ''A''
      ''Business Programming'' False)) = ''Business''"
proof -
  have l: "lower ''Business Programming'' = ''business programming''"
    by code_simp
  have b: "sublist ''business'' ''business programming''"
    by (simp add: sublist_code)
  have p: "sublist ''programming'' (''business '' @ ''programming'')"
    by (rule sublist_append_leftI)
  show ?thesis
    using keyword_bucket_fallback [of "''K''" "\<lambda>url. Inl RequestException" "''T''" "''A''"
        _ "''Business Programming''", OF _ refl] b p
    by (simp add: catalog_lookup_def l)
qed

text \<open>Where the \<open>try\<close> block of the extractor raises.\<close>

lemma extract_try_open_raises: "extract_try stem (Open_raises e) = Inl e"
  by (simp add: extract_try_def)

lemma extract_try_page_raises:
  "first_page_text_of reader = Inl e \<Longrightarrow> extract_try stem (Opened reader) = Inl e"
  by (simp add: extract_try_def)

lemma extract_try_no_metadata:
  "first_page_text_of reader = Inr t \<Longrightarrow> metadata reader = None \<Longrightarrow>
     extract_try stem (Opened reader) = Inl AttributeError"
  by (simp add: extract_try_def)

lemma extract_try_Inr:
  assumes "extract_try stem file = Inr md"
  obtains reader t info where "file = Opened reader"
    and "first_page_text_of reader = Inr t" and "metadata reader = Some info"
proof (cases "file")
  case (Open_raises e)
  with assms show ?thesis by (simp add: extract_try_def)
next
  case (Opened reader)
  show ?thesis
  proof (cases "first_page_text_of reader")
    case (Inl e)
    with assms Opened show ?thesis by (simp add: extract_try_def)
  next
    case (Inr t)
    show ?thesis
    proof (cases "metadata reader")
      case None
      with assms Opened Inr show ?thesis by (simp add: extract_try_def)
    next
      case (Some info)
      with Opened Inr that show ?thesis by blast
    qed
  qed
qed

lemma extract_pdf_metadata_Inr:
  "extract_try stem file = Inr md \<Longrightarrow> extract_pdf_metadata stem file = (md, [])"
  by (simp add: extract_pdf_metadata_def)

subsection \<open>Resumes\<close>

text \<open>
  Claim C3. When the extraction says the document is a resume, the entry built by the
  upload flow has genre "Resume/CV", the description "Professional document for
  {author}. " followed by the first 150 characters of the content preview and "...",
  the default resume icon as thumbnail, and the title "Resume/CV" when the raw title is
  the file's base name (the extracted title otherwise); the event list is empty, so
  the catalog is not requested. \<open>fetch_book_info\<close> called with the resume flag returns
  that dictionary for every title, author and preview, whatever the catalog would say.
\<close>

theorem resume_classification:
  assumes "extract_pdf_metadata stem file = (md, ev)" and "md_is_resume md"
  shows "upload_book api_key requests_get file_path stem file =
       (\<lparr>bd_file_path = file_path,
         bd_title = md_title md,
         bd_author = md_author md,
         bd_genre = ''Resume/CV'',
         bd_pages = md_pages md,
         bd_description =
           ''Professional document for '' @ md_author md @ ''. '' @
             take 150 (md_content_preview md) @ ''...'',
         bd_thumbnail = Some ''https://cdn-icons-png.flaticon.com/512/3135/3135692.png''\<rparr>,
        []) \<and>
     (\<exists>reader info. file = Opened reader \<and> metadata reader = Some info \<and>
        md_title md =
          (if or_else (info_title info) stem = stem then ''Resume/CV''
           else or_else (info_title info) stem)) \<and>
     (\<forall>title author content_preview.
        fetch_book_info api_key requests_get title author content_preview True =
          (\<lparr>bi_title = title, bi_author = author, bi_genre = ''Resume/CV'',
            bi_description =
              ''Professional document for '' @ author @ ''. '' @ take 150 content_preview @ ''...'',
            bi_thumbnail = Some ''https://cdn-icons-png.flaticon.com/512/3135/3135692.png''\<rparr>,
           []))"
proof (intro conjI)
  have fetch: "fetch_book_info api_key requests_get title author content_preview True =
          (\<lparr>bi_title = title, bi_author = author, bi_genre = ''Resume/CV'',
            bi_description =
              ''Professional document for '' @ author @ ''. '' @ take 150 content_preview @ ''...'',
            bi_thumbnail = Some ''https://cdn-icons-png.flaticon.com/512/3135/3135692.png''\<rparr>,
           [])" for title author content_preview
    by (simp add: fetch_book_info_def)
  have ok: "extract_try stem file = Inr md"
  proof (cases "extract_try stem file")
    case (Inl e)
    have "md = \<lparr>md_title = stem, md_author = ''Unknown'', md_pages = 0,
          md_is_resume = False, md_content_preview = []\<rparr>"
      using assms(1) extract_pdf_metadata_raises [OF Inl] by simp
    then have "md_is_resume md = False"
      by simp
    then show ?thesis using assms(2) by simp
  next
    case (Inr md')
    then show ?thesis
      using assms(1) by (simp add: extract_pdf_metadata_Inr)
  qed
  then have ev: "ev = []"
    using assms(1) by (simp add: extract_pdf_metadata_Inr)
  have res: "md_is_resume md = True"
    using assms(2) by simp
  show "upload_book api_key requests_get file_path stem file =
       (\<lparr>bd_file_path = file_path,
         bd_title = md_title md,
         bd_author = md_author md,
         bd_genre = ''Resume/CV'',
         bd_pages = md_pages md,
         bd_description =
           ''Professional document for '' @ md_author md @ ''. '' @
             take 150 (md_content_preview md) @ ''...'',
         bd_thumbnail = Some ''https://cdn-icons-png.flaticon.com/512/3135/3135692.png''\<rparr>,
        [])"
    by (simp add: upload_book_def assms(1) res fetch ev)
  obtain reader t info where opened: "file = Opened reader"
    and first: "first_page_text_of reader = Inr t" and info: "metadata reader = Some info"
    using ok by (rule extract_try_Inr)
  have md: "md = fst (extract_pdf_metadata stem (Opened reader))"
    using assms(1) opened by simp
  have "is_resume t"
    using assms(2) unfolding md by (simp add: extract_pdf_metadata_ok [OF first info])
  then have "md_title md =
          (if or_else (info_title info) stem = stem then ''Resume/CV''
           else or_else (info_title info) stem)"
    unfolding md by (simp add: extract_pdf_metadata_ok [OF first info])
  then show "\<exists>reader info. file = Opened reader \<and> metadata reader = Some info \<and>
        md_title md =
          (if or_else (info_title info) stem = stem then ''Resume/CV''
           else or_else (info_title info) stem)"
    using opened info by blast
  show "\<forall>title author content_preview.
        fetch_book_info api_key requests_get title author content_preview True =
          (\<lparr>bi_title = title, bi_author = author, bi_genre = ''Resume/CV'',
            bi_description =
              ''Professional document for '' @ author @ ''. '' @ take 150 content_preview @ ''...'',
            bi_thumbnail = Some ''https://cdn-icons-png.flaticon.com/512/3135/3135692.png''\<rparr>,
           [])"
    using fetch by blast
qed

lemma jane_doe_metadata: "extract_pdf_metadata ''cv''
      (Opened \<lparr>metadata = Some \<lparr>info_title = None, info_author = None\<rparr>,
              pages = [Inr (''Jane Doe'' @ [CHR 0x0A] @ ''Curriculum Vitae'')]\<rparr>) =
     (\<lparr>md_title = ''Resume/CV'', md_author = ''Jane Doe'', md_pages = 1, md_is_resume = True,
       md_content_preview = ''Jane Doe'' @ [CHR 0x0A] @ ''Curriculum Vitae''\<rparr>, [])"
  by code_simp

theorem resume_classification_witness:
  "upload_book ''K'' (\<lambda>url. Inl RequestException) ''uploads/cv.pdf'' ''cv''
      (Opened \<lparr>metadata = Some \<lparr>info_title = None, info_author = None\<rparr>,
              pages = [Inr (''Jane Doe'' @ [CHR 0x0A] @ ''Curriculum Vitae'')]\<rparr>) =
     (\<lparr>bd_file_path = ''uploads/cv.pdf'', bd_title = ''Resume/CV'', bd_author = ''Jane Doe'',
       bd_genre = ''Resume/CV'', bd_pages = 1,
       bd_description =
         ''Professional document for Jane Doe. Jane Doe'' @ [CHR 0x0A] @ ''Curriculum Vitae...'',
       bd_thumbnail = Some ''https://cdn-icons-png.flaticon.com/512/3135/3135692.png''\<rparr>, [])"
  using resume_classification [OF jane_doe_metadata, of "''K''" "\<lambda>url. Inl RequestException" "''uploads/cv.pdf''"]
  by simp

subsection \<open>Failures\<close>

text \<open>
  What the two handlers do. When the \<open>try\<close> block of the extractor raises, the handler
  reports the error with \<open>st.error\<close> and returns the base name as title, "Unknown" as
  author, zero pages, no resume and an empty preview; the upload flow goes on with
  these values. When the \<open>try\<close> block of the lookup raises, the handler reports it and
  \<open>fetch_book_info\<close> returns the keyword-bucket classification.
\<close>

lemma failures_are_caught:
  "(extract_try stem file = Inl e \<longrightarrow>
      extract_pdf_metadata stem file =
        (\<lparr>md_title = stem, md_author = ''Unknown'', md_pages = 0,
          md_is_resume = False, md_content_preview = []\<rparr>,
         [St_error ''Error extracting PDF metadata: '' e]) \<and>
      upload_book api_key requests_get file_path stem file =
        (\<lparr>bd_file_path = file_path,
          bd_title = bi_title (fst (fetch_book_info api_key requests_get stem ''Unknown'' [] False)),
          bd_author = bi_author (fst (fetch_book_info api_key requests_get stem ''Unknown'' [] False)),
          bd_genre = bi_genre (fst (fetch_book_info api_key requests_get stem ''Unknown'' [] False)),
          bd_pages = 0,
          bd_description =
            bi_description (fst (fetch_book_info api_key requests_get stem ''Unknown'' [] False)),
          bd_thumbnail =
            bi_thumbnail (fst (fetch_book_info api_key requests_get stem ''Unknown'' [] False))\<rparr>,
         St_error ''Error extracting PDF metadata: '' e #
           snd (fetch_book_info api_key requests_get stem ''Unknown'' [] False))) \<and>
   (catalog_lookup api_key requests_get title author = Inl e' \<longrightarrow>
      fetch_book_info api_key requests_get title author content_preview False =
        (categorize title author content_preview,
         [Requests_get (books_url api_key title author),
          St_error ''Error fetching book info: '' e']))"
proof (intro conjI impI)
  assume r: "extract_try stem file = Inl e"
  show "extract_pdf_metadata stem file =
        (\<lparr>md_title = stem, md_author = ''Unknown'', md_pages = 0,
          md_is_resume = False, md_content_preview = []\<rparr>,
         [St_error ''Error extracting PDF metadata: '' e])"
    by (rule extract_pdf_metadata_raises [OF r])
  then show "upload_book api_key requests_get file_path stem file =
        (\<lparr>bd_file_path = file_path,
          bd_title = bi_title (fst (fetch_book_info api_key requests_get stem ''Unknown'' [] False)),
          bd_author = bi_author (fst (fetch_book_info api_key requests_get stem ''Unknown'' [] False)),
          bd_genre = bi_genre (fst (fetch_book_info api_key requests_get stem ''Unknown'' [] False)),
          bd_pages = 0,
          bd_description =
            bi_description (fst (fetch_book_info api_key requests_get stem ''Unknown'' [] False)),
          bd_thumbnail =
            bi_thumbnail (fst (fetch_book_info api_key requests_get stem ''Unknown'' [] False))\<rparr>,
         St_error ''Error extracting PDF metadata: '' e #
           snd (fetch_book_info api_key requests_get stem ''Unknown'' [] False))"
    by (simp add: upload_book_def case_prod_beta)
next
  assume "catalog_lookup api_key requests_get title author = Inl e'"
  then show "fetch_book_info api_key requests_get title author content_preview False =
        (categorize title author content_preview,
         [Requests_get (books_url api_key title author),
          St_error ''Error fetching book info: '' e'])"
    by (simp add: fetch_book_info_def)
qed

lemma failures_are_caught_example:
  "extract_pdf_metadata ''notes'' (Open_raises PdfReadError) =
        (\<lparr>md_title = ''notes'', md_author = ''Unknown'', md_pages = 0,
          md_is_resume = False, md_content_preview = []\<rparr>,
         [St_error ''Error extracting PDF metadata: '' PdfReadError]) \<and>
   fetch_book_info ''K'' (\<lambda>url. Inl RequestException) ''notes'' ''Unknown'' [] False =
        (categorize ''notes'' ''Unknown'' [],
         [Requests_get (books_url ''K'' ''notes'' ''Unknown''),
          St_error ''Error fetching book info: '' RequestException])"
  using failures_are_caught [of "''notes''" "Open_raises PdfReadError" PdfReadError
      "''K''" "\<lambda>url. Inl RequestException" _ "''notes''" "''Unknown''" RequestException "[]"]
  by (simp add: extract_try_def catalog_lookup_def)

subsection \<open>A catalog value that is null\<close>

text \<open>
  On a catalog document whose text values are all strings, the upload page with Python
  values is the typed upload flow: it returns, with the same entry and the same events.
\<close>

lemma first_volume_py_typed:
  "first_volume_py title author (response_as_json data) =
     map_sum id (map_option as_py) (first_volume title author data)"
proof (cases data)
  case None
  then show ?thesis
    by (simp add: first_volume_py_def first_volume_def response_as_json_def)
next
  case (Some items)
  show ?thesis
  proof (cases items)
    case Nil
    then show ?thesis
      using Some by (simp add: first_volume_py_def first_volume_def response_as_json_def)
  next
    case (Cons item rest)
    show ?thesis
    proof (cases item)
      case None
      then show ?thesis
        using Some Cons
        by (simp add: first_volume_py_def first_volume_def response_as_json_def py_index_0)
    next
      case (Some info)
      show ?thesis
        unfolding \<open>data = Some items\<close> Cons Some
        by (cases "vi_authors info"; cases "vi_categories info";
            cases "the (vi_authors info)"; cases "the (vi_categories info)")
           (simp_all add: first_volume_py_def first_volume_def response_as_json_def py_index_0
              volume_as_json_def dict_get_def as_py_def split: option.splits)
    qed
  qed
qed

lemma fetch_book_info_py_typed:
  "fetch_book_info_py api_key (\<lambda>url. map_sum id response_as_json (requests_get url))
       title author content_preview resume =
     (as_py (fst (fetch_book_info api_key requests_get title author content_preview resume)),
      snd (fetch_book_info api_key requests_get title author content_preview resume))"
proof -
  have look: "catalog_lookup_py api_key (\<lambda>url. map_sum id response_as_json (requests_get url))
        title author =
      map_sum id (map_option as_py) (catalog_lookup api_key requests_get title author)"
    by (cases "requests_get (books_url api_key title author)")
       (simp_all add: catalog_lookup_py_def catalog_lookup_def first_volume_py_typed)
  show ?thesis
  proof (cases resume)
    case True
    then show ?thesis
      by (simp add: fetch_book_info_py_def fetch_book_info_def)
  next
    case False
    show ?thesis
    proof (cases "catalog_lookup api_key requests_get title author")
      case (Inl e)
      then show ?thesis
        using False by (simp add: fetch_book_info_py_def fetch_book_info_def look)
    next
      case (Inr r)
      then show ?thesis
        using False
        by (cases r) (simp_all add: fetch_book_info_py_def fetch_book_info_def look)
    qed
  qed
qed

lemma upload_page_typed:
  "upload_page api_key (\<lambda>url. map_sum id response_as_json (requests_get url))
       file_path stem file =
     Inr (entry_as_py (fst (upload_book api_key requests_get file_path stem file)),
          snd (upload_book api_key requests_get file_path stem file))"
  by (simp add: upload_page_def upload_book_def fetch_book_info_py_typed case_prod_beta
      as_py_def entry_as_py_def)


text \<open>
  Claim C10. For a readable PDF without pages the first-page text is the empty string
  (page 0 is not indexed), the extraction says it is no resume and the content preview
  is empty; no \<open>IndexError\<close> is reported.
\<close>

theorem zero_pages_guarded:
  assumes "pages reader = []"
  shows "first_page_text_of reader = Inr [] \<and>
     md_is_resume (fst (extract_pdf_metadata stem (Opened reader))) = False \<and>
     md_content_preview (fst (extract_pdf_metadata stem (Opened reader))) = [] \<and>
     St_error ''Error extracting PDF metadata: '' IndexError
       \<notin> set (snd (extract_pdf_metadata stem (Opened reader)))"
proof -
  have f: "first_page_text_of reader = Inr []"
    using assms by (simp add: first_page_text_of_def)
  show ?thesis
  proof (cases "metadata reader")
    case None
    then have "extract_try stem (Opened reader) = Inl AttributeError"
      using f by (simp add: extract_try_def)
    then show ?thesis
      using f by (simp add: extract_pdf_metadata_raises)
  next
    case (Some info)
    show ?thesis
      using f by (simp add: extract_pdf_metadata_ok [OF f Some] is_resume_empty)
  qed
qed

theorem zero_pages_guarded_witness:
  "first_page_text_of \<lparr>metadata = None, pages = []\<rparr> = Inr [] \<and>
   md_is_resume (fst (extract_pdf_metadata ''empty'' (Opened \<lparr>metadata = None, pages = []\<rparr>)))
     = False \<and>
   md_content_preview (fst (extract_pdf_metadata ''empty'' (Opened \<lparr>metadata = None, pages = []\<rparr>)))
     = []"
  using zero_pages_guarded [of "\<lparr>metadata = None, pages = []\<rparr>" "''empty''"]
  by simp

subsection \<open>Search\<close>

text \<open>
  Claim C7. The search with the empty query returns the library unchanged; with a
  non-empty query it returns, in order, the entries for which the lowercased query is a
  substring of the lowercased title, author or genre; the query "SMITH" finds an entry
  whose author is "John Smith". Lowercasing is \<open>str.lower\<close> on the code points 0 to 255,
  accented letters included.
\<close>

theorem library_search:
  "filtered_books library [] = library \<and>
   (search_query \<noteq> [] \<longrightarrow>
      filtered_books library search_query =
        filter (\<lambda>book. sublist (lower search_query) (lower (bd_title book)) \<or>
                        sublist (lower search_query) (lower (bd_author book)) \<or>
                        sublist (lower search_query) (lower (bd_genre book))) library) \<and>
   (book \<in> set library \<and> bd_author book = ''John Smith'' \<longrightarrow>
      book \<in> set (filtered_books library ''SMITH''))"
proof -
  have "lower ''SMITH'' = ''smith''" "lower ''John Smith'' = ''john '' @ ''smith''"
    by code_simp+
  then have "sublist (lower ''SMITH'') (lower ''John Smith'')"
    by (simp only: sublist_append_leftI)
  then show ?thesis
    by (auto simp: filtered_books_def str_in_sublist)
qed

theorem library_search_witness:
  "filtered_books
     [\<lparr>bd_file_path = ''uploads/a.pdf'', bd_title = ''Caf'' @ [CHR 0xE9], bd_author = ''John Smith'',
       bd_genre = ''Science'', bd_pages = 3, bd_description = ''...'', bd_thumbnail = None\<rparr>,
      \<lparr>bd_file_path = ''uploads/b.pdf'', bd_title = ''Plans'', bd_author = ''Ann Lee'',
       bd_genre = ''Business'', bd_pages = 5, bd_description = ''...'', bd_thumbnail = None\<rparr>]
     ''SMITH'' =
     [\<lparr>bd_file_path = ''uploads/a.pdf'', bd_title = ''Caf'' @ [CHR 0xE9], bd_author = ''John Smith'',
       bd_genre = ''Science'', bd_pages = 3, bd_description = ''...'', bd_thumbnail = None\<rparr>] \<and>
   filtered_books
     [\<lparr>bd_file_path = ''uploads/a.pdf'', bd_title = ''Caf'' @ [CHR 0xE9], bd_author = ''John Smith'',
       bd_genre = ''Science'', bd_pages = 3, bd_description = ''...'', bd_thumbnail = None\<rparr>,
      \<lparr>bd_file_path = ''uploads/b.pdf'', bd_title = ''Plans'', bd_author = ''Ann Lee'',
       bd_genre = ''Business'', bd_pages = 5, bd_description = ''...'', bd_thumbnail = None\<rparr>]
     (''CAF'' @ [CHR 0xC9]) =
     [\<lparr>bd_file_path = ''uploads/a.pdf'', bd_title = ''Caf'' @ [CHR 0xE9], bd_author = ''John Smith'',
       bd_genre = ''Science'', bd_pages = 3, bd_description = ''...'', bd_thumbnail = None\<rparr>] \<and>
   filtered_books
     [\<lparr>bd_file_path = ''uploads/a.pdf'', bd_title = ''Caf'' @ [CHR 0xE9], bd_author = ''John Smith'',
       bd_genre = ''Science'', bd_pages = 3, bd_description = ''...'', bd_thumbnail = None\<rparr>,
      \<lparr>bd_file_path = ''uploads/b.pdf'', bd_title = ''Plans'', bd_author = ''Ann Lee'',
       bd_genre = ''Business'', bd_pages = 5, bd_description = ''...'', bd_thumbnail = None\<rparr>]
     [] =
     [\<lparr>bd_file_path = ''uploads/a.pdf'', bd_title = ''Caf'' @ [CHR 0xE9], bd_author = ''John Smith'',
       bd_genre = ''Science'', bd_pages = 3, bd_description = ''...'', bd_thumbnail = None\<rparr>,
      \<lparr>bd_file_path = ''uploads/b.pdf'', bd_title = ''Plans'', bd_author = ''Ann Lee'',
       bd_genre = ''Business'', bd_pages = 5, bd_description = ''...'', bd_thumbnail = None\<rparr>]"
proof -
  have smith: "filtered_books
     [\<lparr>bd_file_path = ''uploads/a.pdf'', bd_title = ''Caf'' @ [CHR 0xE9], bd_author = ''John Smith'',
       bd_genre = ''Science'', bd_pages = 3, bd_description = ''...'', bd_thumbnail = None\<rparr>,
      \<lparr>bd_file_path = ''uploads/b.pdf'', bd_title = ''Plans'', bd_author = ''Ann Lee'',
       bd_genre = ''Business'', bd_pages = 5, bd_description = ''...'', bd_thumbnail = None\<rparr>]
     ''SMITH'' =
     [\<lparr>bd_file_path = ''uploads/a.pdf'', bd_title = ''Caf'' @ [CHR 0xE9], bd_author = ''John Smith'',
       bd_genre = ''Science'', bd_pages = 3, bd_description = ''...'', bd_thumbnail = None\<rparr>]"
    by code_simp
  have accent: "filtered_books
     [\<lparr>bd_file_path = ''uploads/a.pdf'', bd_title = ''Caf'' @ [CHR 0xE9], bd_author = ''John Smith'',
       bd_genre = ''Science'', bd_pages = 3, bd_description = ''...'', bd_thumbnail = None\<rparr>,
      \<lparr>bd_file_path = ''uploads/b.pdf'', bd_title = ''Plans'', bd_author = ''Ann Lee'',
       bd_genre = ''Business'', bd_pages = 5, bd_description = ''...'', bd_thumbnail = None\<rparr>]
     (''CAF'' @ [CHR 0xC9]) =
     [\<lparr>bd_file_path = ''uploads/a.pdf'', bd_title = ''Caf'' @ [CHR 0xE9], bd_author = ''John Smith'',
       bd_genre = ''Science'', bd_pages = 3, bd_description = ''...'', bd_thumbnail = None\<rparr>]"
    by code_simp
  show ?thesis
    using library_search [of
      "[\<lparr>bd_file_path = ''uploads/a.pdf'', bd_title = ''Caf'' @ [CHR 0xE9], bd_author = ''John Smith'',
       bd_genre = ''Science'', bd_pages = 3, bd_description = ''...'', bd_thumbnail = None\<rparr>,
      \<lparr>bd_file_path = ''uploads/b.pdf'', bd_title = ''Plans'', bd_author = ''Ann Lee'',
       bd_genre = ''Business'', bd_pages = 5, bd_description = ''...'', bd_thumbnail = None\<rparr>]"
      "''SMITH''"] smith accent
    by simp
qed

subsection \<open>Lists without repetitions\<close>

lemma first_occurrences_Nil: "first_occurrences [] = []"
  by (simp add: first_occurrences_def)

lemma remdups_append_filter:
  "remdups (ys @ zs) = filter (\<lambda>y. y \<notin> set zs) (remdups ys) @ remdups zs"
  by (induction ys) auto

lemma first_occurrences_Cons:
  "first_occurrences (x # xs) = x # filter (\<lambda>y. y \<noteq> x) (first_occurrences xs)"
  by (simp add: first_occurrences_def remdups_append_filter rev_filter)

lemma set_first_occurrences: "set (first_occurrences xs) = set xs"
  by (simp add: first_occurrences_def)

lemma distinct_first_occurrences: "distinct (first_occurrences xs)"
  by (simp add: first_occurrences_def)

lemma first_occurrences_append:
  "first_occurrences (xs @ ys) =
     first_occurrences xs @ filter (\<lambda>y. y \<notin> set xs) (first_occurrences ys)"
  by (simp add: first_occurrences_def remdups_append_filter rev_filter)

lemma keep_new_step:
  "x \<notin> set acc \<Longrightarrow>
     acc @ filter (\<lambda>b. b \<notin> set acc) (x # filter (\<lambda>y. y \<noteq> x) ys) =
     (acc @ [x]) @ filter (\<lambda>b. b \<notin> set (acc @ [x])) ys"
  by (induction ys) auto

lemma keep_old_step:
  "x \<in> set acc \<Longrightarrow>
     filter (\<lambda>b. b \<notin> set acc) (x # filter (\<lambda>y. y \<noteq> x) ys) = filter (\<lambda>b. b \<notin> set acc) ys"
  by (induction ys) auto

subsection \<open>Recommendations\<close>

lemma recommendations_loop_eq:
  "recommendations_loop library genre acc =
     acc @ filter (\<lambda>b. b \<notin> set acc)
             (first_occurrences (filter (\<lambda>book. bd_genre book = genre) library))"
proof (induction library arbitrary: acc)
  case Nil
  show ?case by (simp add: first_occurrences_Nil)
next
  case (Cons book library)
  let ?rest = "first_occurrences (filter (\<lambda>book. bd_genre book = genre) library)"
  show ?case
  proof (cases "bd_genre book = genre")
    case False
    then show ?thesis by (simp add: Cons.IH)
  next
    case True
    then have fo: "first_occurrences (filter (\<lambda>book. bd_genre book = genre) (book # library)) =
        book # filter (\<lambda>y. y \<noteq> book) ?rest"
      by (simp add: first_occurrences_Cons)
    show ?thesis
    proof (cases "book \<in> set acc")
      case True
      have "recommendations_loop (book # library) genre acc =
          recommendations_loop library genre acc"
        using True by simp
      also have "\<dots> = acc @ filter (\<lambda>b. b \<notin> set acc) ?rest"
        by (rule Cons.IH)
      finally show ?thesis
        by (simp only: fo keep_old_step [OF True])
    next
      case False
      have "recommendations_loop (book # library) genre acc =
          recommendations_loop library genre (acc @ [book])"
        using False \<open>bd_genre book = genre\<close> by simp
      also have "\<dots> = (acc @ [book]) @ filter (\<lambda>b. b \<notin> set (acc @ [book])) ?rest"
        by (rule Cons.IH)
      finally show ?thesis
        by (simp only: fo keep_new_step [OF False])
    qed
  qed
qed

text \<open>
  Claim C6. \<open>get_recommendations\<close> returns the entries of the given genre, without
  repetitions (entries compared by all their fields), in library order, cut to the
  first three: at most three entries, all different, all of that genre.
\<close>

theorem recommendations_spec:
  "get_recommendations genre library =
     take 3 (first_occurrences (filter (\<lambda>book. bd_genre book = genre) library)) \<and>
   length (get_recommendations genre library) \<le> 3 \<and>
   distinct (get_recommendations genre library) \<and>
   set (get_recommendations genre library) \<subseteq> {book \<in> set library. bd_genre book = genre}"
proof -
  have eq: "get_recommendations genre library =
     take 3 (first_occurrences (filter (\<lambda>book. bd_genre book = genre) library))"
    by (simp add: get_recommendations_def recommendations_loop_eq)
  have sub: "set (take 3 (first_occurrences (filter (\<lambda>book. bd_genre book = genre) library)))
      \<subseteq> set (first_occurrences (filter (\<lambda>book. bd_genre book = genre) library))"
    by (rule set_take_subset)
  show ?thesis
    unfolding eq using sub
    by (auto simp: distinct_first_occurrences set_first_occurrences)
qed

theorem recommendations_spec_witness:
  "get_recommendations ''Science''
     [\<lparr>bd_file_path = ''uploads/a.pdf'', bd_title = ''a'', bd_author = ''A'',
       bd_genre = ''Science'', bd_pages = 1, bd_description = ''...'', bd_thumbnail = None\<rparr>,
      \<lparr>bd_file_path = ''uploads/a.pdf'', bd_title = ''a'', bd_author = ''A'',
       bd_genre = ''Science'', bd_pages = 1, bd_description = ''...'', bd_thumbnail = None\<rparr>,
      \<lparr>bd_file_path = ''uploads/b.pdf'', bd_title = ''b'', bd_author = ''A'',
       bd_genre = ''Business'', bd_pages = 1, bd_description = ''...'', bd_thumbnail = None\<rparr>,
      \<lparr>bd_file_path = ''uploads/c.pdf'', bd_title = ''c'', bd_author = ''A'',
       bd_genre = ''Science'', bd_pages = 1, bd_description = ''...'', bd_thumbnail = None\<rparr>,
      \<lparr>bd_file_path = ''uploads/d.pdf'', bd_title = ''d'', bd_author = ''A'',
       bd_genre = ''Science'', bd_pages = 1, bd_description = ''...'', bd_thumbnail = None\<rparr>,
      \<lparr>bd_file_path = ''uploads/e.pdf'', bd_title = ''e'', bd_author = ''A'',
       bd_genre = ''Science'', bd_pages = 1, bd_description = ''...'', bd_thumbnail = None\<rparr>] =
     [\<lparr>bd_file_path = ''uploads/a.pdf'', bd_title = ''a'', bd_author = ''A'',
       bd_genre = ''Science'', bd_pages = 1, bd_description = ''...'', bd_thumbnail = None\<rparr>,
      \<lparr>bd_file_path = ''uploads/c.pdf'', bd_title = ''c'', bd_author = ''A'',
       bd_genre = ''Science'', bd_pages = 1, bd_description = ''...'', bd_thumbnail = None\<rparr>,
      \<lparr>bd_file_path = ''uploads/d.pdf'', bd_title = ''d'', bd_author = ''A'',
       bd_genre = ''Science'', bd_pages = 1, bd_description = ''...'', bd_thumbnail = None\<rparr>]"
  using recommendations_spec [of "''Science''"
     "[\<lparr>bd_file_path = ''uploads/a.pdf'', bd_title = ''a'', bd_author = ''A'',
       bd_genre = ''Science'', bd_pages = 1, bd_description = ''...'', bd_thumbnail = None\<rparr>,
      \<lparr>bd_file_path = ''uploads/a.pdf'', bd_title = ''a'', bd_author = ''A'',
       bd_genre = ''Science'', bd_pages = 1, bd_description = ''...'', bd_thumbnail = None\<rparr>,
      \<lparr>bd_file_path = ''uploads/b.pdf'', bd_title = ''b'', bd_author = ''A'',
       bd_genre = ''Business'', bd_pages = 1, bd_description = ''...'', bd_thumbnail = None\<rparr>,
      \<lparr>bd_file_path = ''uploads/c.pdf'', bd_title = ''c'', bd_author = ''A'',
       bd_genre = ''Science'', bd_pages = 1, bd_description = ''...'', bd_thumbnail = None\<rparr>,
      \<lparr>bd_file_path = ''uploads/d.pdf'', bd_title = ''d'', bd_author = ''A'',
       bd_genre = ''Science'', bd_pages = 1, bd_description = ''...'', bd_thumbnail = None\<rparr>,
      \<lparr>bd_file_path = ''uploads/e.pdf'', bd_title = ''e'', bd_author = ''A'',
       bd_genre = ''Science'', bd_pages = 1, bd_description = ''...'', bd_thumbnail = None\<rparr>]"]
  by (simp add: first_occurrences_def)

subsection \<open>The author of a resume\<close>

lemma author_loop_find:
  "author_loop lines author =
     (case find (\<lambda>line. 2 \<le> length (split_ws line) \<and> (\<forall>c \<in> set line. \<not> isdigit c)) lines of
        Some line \<Rightarrow> strip line
      | None \<Rightarrow> author)"
  by (induction lines) (auto simp: any_py_iff)

text \<open>
  When the \<open>try\<close> block completes for a resume, the author is the stripped first line,
  among the first three lines of the first-page text, that has at least two
  whitespace-separated tokens and no digit; without such a line it is the author the
  reader supplied, or "Unknown" when it supplied none.
\<close>

lemma resume_author:
  assumes "first_page_text_of reader = Inr text"
    and "metadata reader = Some info"
    and "is_resume text"
  shows "md_author (fst (extract_pdf_metadata stem (Opened reader))) =
     (case find (\<lambda>line. 2 \<le> length (split_ws line) \<and> (\<forall>c \<in> set line. \<not> isdigit c))
             (take 3 (split_on (CHR 0x0A) text)) of
        Some line \<Rightarrow> strip line
      | None \<Rightarrow>
          (case info_author info of
             None \<Rightarrow> ''Unknown''
           | Some a \<Rightarrow> if a = [] then ''Unknown'' else a))"
  using assms
  by (simp add: extract_pdf_metadata_ok author_loop_find or_else_def
      split: option.splits)

lemma resume_author_example:
  "md_author (fst (extract_pdf_metadata ''report''
     (Opened \<lparr>metadata = Some \<lparr>info_title = None, info_author = Some ''scanner''\<rparr>,
       pages = [Inr (''2024 Report'' @ [CHR 0x0A] @ ''  John A Smith '' @ [CHR 0x09, CHR 0x0A] @ ''Skills'')]\<rparr>)))
   = ''John A Smith''"
  by code_simp

text \<open>
  Claim C4 says that for every resume document the author is inferred from the first
  three lines. The code does not do this for a resume without document information: it
  is the defect of claim C2 again, line 37 raises before the loop of lines 41 to 47 is
  reached, and the handler returns the author "Unknown". The first page below is a
  resume whose first line "Jane Doe" has two tokens and no digit; without metadata the
  author is "Unknown", with metadata it is "Jane Doe".
\<close>

theorem resume_author_lost_without_metadata:
  "is_resume (''Jane Doe'' @ [CHR 0x0A] @ ''Curriculum Vitae'') \<and>
   split_on (CHR 0x0A) (''Jane Doe'' @ [CHR 0x0A] @ ''Curriculum Vitae'') =
     [''Jane Doe'', ''Curriculum Vitae''] \<and>
   split_ws ''Jane Doe'' = [''Jane'', ''Doe''] \<and>
   any_py isdigit ''Jane Doe'' = False \<and>
   md_author (fst (extract_pdf_metadata ''cv''
     (Opened \<lparr>metadata = None,
              pages = [Inr (''Jane Doe'' @ [CHR 0x0A] @ ''Curriculum Vitae'')]\<rparr>))) = ''Unknown'' \<and>
   md_author (fst (extract_pdf_metadata ''cv''
     (Opened \<lparr>metadata = Some \<lparr>info_title = None, info_author = None\<rparr>,
              pages = [Inr (''Jane Doe'' @ [CHR 0x0A] @ ''Curriculum Vitae'')]\<rparr>))) = ''Jane Doe''"
  by code_simp

subsection \<open>The favourite genre\<close>

lemma count_genre_keys:
  "map fst (count_genre gc g) = (if g \<in> set (map fst gc) then map fst gc else map fst gc @ [g])"
  by (induction gc g rule: count_genre.induct) auto

lemma count_genre_count:
  "count_of (count_genre gc g) g' = (if g' = g then count_of gc g + 1 else count_of gc g')"
  by (induction gc g rule: count_genre.induct) (auto simp: count_of_def)

lemma genre_count_loop_count:
  "count_of (genre_count_loop library gc) g = count_of gc g + count_list (map bd_genre library) g"
  by (induction library arbitrary: gc) (auto simp: count_genre_count)

lemma genre_count_loop_keys:
  "map fst (genre_count_loop library gc) =
     map fst gc @ filter (\<lambda>g. g \<notin> set (map fst gc)) (first_occurrences (map bd_genre library))"
proof (induction library arbitrary: gc)
  case Nil
  show ?case by (simp add: first_occurrences_Nil)
next
  case (Cons book library)
  let ?g = "bd_genre book"
  let ?rest = "first_occurrences (map bd_genre library)"
  have fo: "first_occurrences (map bd_genre (book # library)) =
      ?g # filter (\<lambda>y. y \<noteq> ?g) ?rest"
    by (simp only: list.map first_occurrences_Cons)
  have step: "map fst (genre_count_loop (book # library) gc) =
      map fst (count_genre gc ?g) @
        filter (\<lambda>g. g \<notin> set (map fst (count_genre gc ?g))) ?rest"
    by (simp only: genre_count_loop.simps Cons.IH)
  show ?case
  proof (cases "?g \<in> set (map fst gc)")
    case True
    then have "map fst (count_genre gc ?g) = map fst gc"
      by (simp only: count_genre_keys if_True)
    then show ?thesis
      by (simp only: step fo keep_old_step [OF True])
  next
    case False
    then have "map fst (count_genre gc ?g) = map fst gc @ [?g]"
      by (simp only: count_genre_keys if_False)
    then show ?thesis
      by (simp only: step fo keep_new_step [OF False])
  qed
qed

lemma max_from_first_max:
  "\<exists>pre post. best # xs = pre @ max_from key best xs # post \<and>
     (\<forall>x \<in> set pre. key x < key (max_from key best xs)) \<and>
     (\<forall>x \<in> set post. key x \<le> key (max_from key best xs))"
proof (induction xs arbitrary: best)
  case Nil
  show ?case by (rule exI [of _ "[]"]) simp
next
  case (Cons x xs)
  show ?case
  proof (cases "key x > key best")
    case True
    then have m: "max_from key best (x # xs) = max_from key x xs"
      by simp
    obtain pre post where d: "x # xs = pre @ max_from key x xs # post"
      and lt: "\<forall>y \<in> set pre. key y < key (max_from key x xs)"
      and le: "\<forall>y \<in> set post. key y \<le> key (max_from key x xs)"
      using Cons.IH [of x] by blast
    have "key x \<le> key (max_from key x xs)"
      using d lt by (cases pre) auto
    then have b: "key best < key (max_from key x xs)"
      using True by simp
    show ?thesis
      unfolding m
      apply (rule exI [of _ "best # pre"])
      apply (rule exI [of _ post])
      using d lt le b apply simp
      done
  next
    case False
    then have m: "max_from key best (x # xs) = max_from key best xs"
      by simp
    obtain pre post where d: "best # xs = pre @ max_from key best xs # post"
      and lt: "\<forall>y \<in> set pre. key y < key (max_from key best xs)"
      and le: "\<forall>y \<in> set post. key y \<le> key (max_from key best xs)"
      using Cons.IH [of best] by blast
    show ?thesis
    proof (cases pre)
      case Nil
      have e: "best # xs = max_from key best xs # post"
        using d unfolding Nil by (simp only: append_Nil)
      have b: "max_from key best xs = best"
        using e by (metis list.inject)
      have p: "post = xs"
        using e by (metis list.inject)
      show ?thesis
        unfolding m
        apply (rule exI [of _ "[]"])
        apply (rule exI [of _ "x # xs"])
        using b p le False apply simp
        done
    next
      case (Cons p pre')
      have e: "best # xs = p # (pre' @ max_from key best xs # post)"
        using d unfolding Cons by (simp only: append_Cons)
      have b: "p = best"
        using e by (metis list.inject)
      have xs: "xs = pre' @ max_from key best xs # post"
        using e by (metis list.inject)
      have "key best < key (max_from key best xs)"
        using lt Cons b by simp
      then have k: "key x < key (max_from key best xs)"
        using False by simp
      show ?thesis
        unfolding m
        apply (rule exI [of _ "best # x # pre'"])
        apply (rule exI [of _ post])
        using xs lt le k Cons b apply simp
        done
    qed
  qed
qed

text \<open>
  Claim C8. For a non-empty library the favourite genre is a genre of the library whose
  number of occurrences no genre exceeds, and every genre that occurs in the library
  before its first occurrence has strictly fewer occurrences: among the most frequent
  genres it is the one met first. It is a function of the library, so two runs agree.
\<close>

theorem favorite_genre_most_common:
  assumes "library \<noteq> []"
  shows "\<exists>favorite before after.
     favorite_genre library = Inr favorite \<and>
     map bd_genre library = before @ favorite # after \<and>
     favorite \<notin> set before \<and>
     (\<forall>g \<in> set before.
        count_list (map bd_genre library) g < count_list (map bd_genre library) favorite) \<and>
     (\<forall>g. count_list (map bd_genre library) g \<le> count_list (map bd_genre library) favorite)"
proof -
  let ?gs = "map bd_genre library"
  let ?gc = "genre_count_loop library []"
  have keys: "map fst ?gc = first_occurrences ?gs"
    by (simp add: genre_count_loop_keys)
  have empty: "count_of [] g = 0" for g
    by (simp add: count_of_def)
  have cnt: "count_of ?gc g = count_list ?gs g" for g
    by (simp add: genre_count_loop_count empty)
  have "set (first_occurrences ?gs) \<noteq> {}"
    using assms by (simp add: set_first_occurrences)
  then obtain k ks where ks: "first_occurrences ?gs = k # ks"
    by (cases "first_occurrences ?gs") auto
  define m where "m = max_from (count_of ?gc) k ks"
  have fav: "favorite_genre library = Inr m"
    by (simp add: favorite_genre_def Let_def keys ks py_max_def m_def)
  obtain pre post where d: "k # ks = pre @ m # post"
    and lt: "\<forall>x \<in> set pre. count_of ?gc x < count_of ?gc m"
    and le: "\<forall>x \<in> set post. count_of ?gc x \<le> count_of ?gc m"
    using max_from_first_max [of k ks "count_of ?gc"] unfolding m_def by blast
  have fo: "first_occurrences ?gs = pre @ m # post"
    using ks d by simp
  have dist: "distinct (pre @ m # post)"
    using distinct_first_occurrences [of ?gs] fo by simp
  have "m \<in> set (first_occurrences ?gs)"
    using fo by simp
  then have "m \<in> set ?gs"
    by (simp only: set_first_occurrences)
  then obtain before after where sp: "?gs = before @ m # after" and nb: "m \<notin> set before"
    by (meson split_list_first)
  have "first_occurrences ?gs =
      first_occurrences before @
        m # filter (\<lambda>y. y \<notin> set before) (filter (\<lambda>y. y \<noteq> m) (first_occurrences after))"
    using nb
    by (simp only: sp first_occurrences_append first_occurrences_Cons filter.simps
        if_True not_False_eq_True)
  then have "pre @ m # post =
      first_occurrences before @
        m # filter (\<lambda>y. y \<notin> set before) (filter (\<lambda>y. y \<noteq> m) (first_occurrences after))"
    using fo by simp
  moreover have "m \<notin> set pre" "m \<notin> set post"
    using dist by auto
  ultimately have "pre = first_occurrences before"
    by (simp add: append_Cons_eq_iff)
  then have sets: "set pre = set before"
    by (simp add: set_first_occurrences)
  have below: "\<forall>g \<in> set before. count_list ?gs g < count_list ?gs m"
    using lt sets by (simp add: cnt)
  have all: "count_list ?gs g \<le> count_list ?gs m" for g
  proof (cases "g \<in> set ?gs")
    case True
    then have "g \<in> set (pre @ m # post)"
      using fo set_first_occurrences [of ?gs] by simp
    then show ?thesis
      using lt le by (auto simp: cnt less_imp_le)
  next
    case False
    then have "count_list ?gs g = 0"
      by (simp only: count_list_0_iff not_False_eq_True)
    then show ?thesis by simp
  qed
  show ?thesis
    using fav sp nb below all by blast
qed

theorem favorite_genre_most_common_witness:
  "favorite_genre
     [\<lparr>bd_file_path = ''uploads/a.pdf'', bd_title = ''a'', bd_author = ''A'',
       bd_genre = ''Science'', bd_pages = 1, bd_description = ''...'', bd_thumbnail = None\<rparr>,
      \<lparr>bd_file_path = ''uploads/b.pdf'', bd_title = ''b'', bd_author = ''A'',
       bd_genre = ''Business'', bd_pages = 1, bd_description = ''...'', bd_thumbnail = None\<rparr>,
      \<lparr>bd_file_path = ''uploads/c.pdf'', bd_title = ''c'', bd_author = ''A'',
       bd_genre = ''Business'', bd_pages = 1, bd_description = ''...'', bd_thumbnail = None\<rparr>,
      \<lparr>bd_file_path = ''uploads/d.pdf'', bd_title = ''d'', bd_author = ''A'',
       bd_genre = ''Science'', bd_pages = 1, bd_description = ''...'', bd_thumbnail = None\<rparr>]
   = Inr ''Science''"
  using favorite_genre_most_common [of
     "[\<lparr>bd_file_path = ''uploads/a.pdf'', bd_title = ''a'', bd_author = ''A'',
       bd_genre = ''Science'', bd_pages = 1, bd_description = ''...'', bd_thumbnail = None\<rparr>,
      \<lparr>bd_file_path = ''uploads/b.pdf'', bd_title = ''b'', bd_author = ''A'',
       bd_genre = ''Business'', bd_pages = 1, bd_description = ''...'', bd_thumbnail = None\<rparr>,
      \<lparr>bd_file_path = ''uploads/c.pdf'', bd_title = ''c'', bd_author = ''A'',
       bd_genre = ''Business'', bd_pages = 1, bd_description = ''...'', bd_thumbnail = None\<rparr>,
      \<lparr>bd_file_path = ''uploads/d.pdf'', bd_title = ''d'', bd_author = ''A'',
       bd_genre = ''Science'', bd_pages = 1, bd_description = ''...'', bd_thumbnail = None\<rparr>]"]
  by (auto simp: Cons_eq_append_conv)

subsection \<open>The fields of a library entry\<close>

lemma author_loop_nonempty: "author \<noteq> [] \<Longrightarrow> author_loop lines author \<noteq> []"
proof (induction lines)
  case Nil
  then show ?case by simp
next
  case (Cons line lines)
  show ?case
  proof (cases "length (split_ws line) \<ge> 2 \<and> \<not> any_py isdigit line")
    case True
    then have "split_ws line \<noteq> []"
      by auto
    then show ?thesis
      using True by (simp add: strip_tokens_nonempty)
  next
    case False
    then show ?thesis
      using Cons by auto
  qed
qed

lemma or_else_nonempty: "d \<noteq> [] \<Longrightarrow> or_else x d \<noteq> []"
  by (simp add: or_else_def split: option.splits)

lemma extract_try_cases:
  obtains (raises) e where "extract_try stem file = Inl e"
  | (returns) reader t info where "file = Opened reader"
      and "first_page_text_of reader = Inr t" and "metadata reader = Some info"
proof (cases "extract_try stem file")
  case (Inl e)
  then show ?thesis by (rule raises)
next
  case (Inr md)
  then show ?thesis
    by (rule extract_try_Inr) (rule returns)
qed

lemma metadata_nonempty:
  assumes "stem \<noteq> []"
  shows "md_title (fst (extract_pdf_metadata stem file)) \<noteq> [] \<and>
     md_author (fst (extract_pdf_metadata stem file)) \<noteq> []"
proof (cases rule: extract_try_cases [of stem "file"])
  case (raises e)
  then show ?thesis
    using assms by (simp add: extract_pdf_metadata_raises)
next
  case (returns reader t info)
  have "or_else (info_title info) stem \<noteq> []" "or_else (info_author info) ''Unknown'' \<noteq> []"
    using assms by (simp_all add: or_else_nonempty)
  then show ?thesis
    unfolding returns(1)
    by (simp add: extract_pdf_metadata_ok [OF returns(2,3)] author_loop_nonempty)
qed

lemma upload_book_fields:
  "fst (upload_book api_key requests_get file_path stem file) =
     \<lparr>bd_file_path = file_path,
      bd_title = bi_title (fst (fetch_book_info api_key requests_get
        (md_title (fst (extract_pdf_metadata stem file)))
        (md_author (fst (extract_pdf_metadata stem file)))
        (md_content_preview (fst (extract_pdf_metadata stem file)))
        (md_is_resume (fst (extract_pdf_metadata stem file))))),
      bd_author = bi_author (fst (fetch_book_info api_key requests_get
        (md_title (fst (extract_pdf_metadata stem file)))
        (md_author (fst (extract_pdf_metadata stem file)))
        (md_content_preview (fst (extract_pdf_metadata stem file)))
        (md_is_resume (fst (extract_pdf_metadata stem file))))),
      bd_genre = bi_genre (fst (fetch_book_info api_key requests_get
        (md_title (fst (extract_pdf_metadata stem file)))
        (md_author (fst (extract_pdf_metadata stem file)))
        (md_content_preview (fst (extract_pdf_metadata stem file)))
        (md_is_resume (fst (extract_pdf_metadata stem file))))),
      bd_pages = md_pages (fst (extract_pdf_metadata stem file)),
      bd_description = bi_description (fst (fetch_book_info api_key requests_get
        (md_title (fst (extract_pdf_metadata stem file)))
        (md_author (fst (extract_pdf_metadata stem file)))
        (md_content_preview (fst (extract_pdf_metadata stem file)))
        (md_is_resume (fst (extract_pdf_metadata stem file))))),
      bd_thumbnail = bi_thumbnail (fst (fetch_book_info api_key requests_get
        (md_title (fst (extract_pdf_metadata stem file)))
        (md_author (fst (extract_pdf_metadata stem file)))
        (md_content_preview (fst (extract_pdf_metadata stem file)))
        (md_is_resume (fst (extract_pdf_metadata stem file)))))\<rparr>"
  by (simp add: upload_book_def case_prod_beta)

lemma categorize_fields:
  "bi_title (categorize title author p) = title \<and>
   bi_author (categorize title author p) = author \<and>
   bi_description (categorize title author p) = take 200 p @ ''...'' \<and>
   bi_genre (categorize title author p) \<in>
     {''Business'', ''Technology'', ''Science'', ''Education'', ''Document''} \<and>
   (bi_thumbnail (categorize title author p) = None \<longleftrightarrow>
      bi_genre (categorize title author p) \<in>
        {''Business'', ''Technology'', ''Science'', ''Education''}) \<and>
   (bi_thumbnail (categorize title author p) \<noteq> None \<longrightarrow>
      bi_thumbnail (categorize title author p) =
        Some ''https://cdn-icons-png.flaticon.com/512/337/337946.png'')"
  unfolding categorize_def category_loop_categories
  by (simp split: if_splits)

lemma first_volume_found:
  assumes "first_volume title author data = Inr (Some found)"
  shows "\<exists>info rest. data = Some (Some info # rest) \<and>
     bi_title found = (case vi_title info of None \<Rightarrow> title | Some t \<Rightarrow> t) \<and>
     (case vi_authors info of
        None \<Rightarrow> bi_author found = author
      | Some authors \<Rightarrow> \<exists>rest. authors = bi_author found # rest) \<and>
     (case vi_categories info of
        None \<Rightarrow> bi_genre found = ''Uncategorized''
      | Some cats \<Rightarrow> \<exists>rest. cats = bi_genre found # rest) \<and>
     bi_description found =
       (case vi_description info of None \<Rightarrow> ''No description available'' | Some d \<Rightarrow> d) \<and>
     bi_thumbnail found = (case vi_imageLinks info of None \<Rightarrow> None | Some t \<Rightarrow> t)"
proof (cases data)
  case None
  with assms show ?thesis by (simp add: first_volume_def)
next
  case (Some items)
  show ?thesis
  proof (cases items)
    case Nil
    with assms Some show ?thesis by (simp add: first_volume_def)
  next
    case (Cons item rest)
    show ?thesis
    proof (cases item)
      case None
      with assms Some Cons show ?thesis by (simp add: first_volume_def py_index_0)
    next
      case (Some info)
      have fv: "first_volume title author (Some (Some info # rest)) = Inr (Some found)"
        using assms \<open>data = Some items\<close> Cons Some by simp
      have a: "case vi_authors info of
            None \<Rightarrow> bi_author found = author
          | Some authors \<Rightarrow> \<exists>rest. authors = bi_author found # rest"
        using fv
        by (auto simp: first_volume_def py_index_0 dict_get_def
            split: option.splits list.splits sum.splits if_splits)
      have c: "case vi_categories info of
            None \<Rightarrow> bi_genre found = ''Uncategorized''
          | Some cats \<Rightarrow> \<exists>rest. cats = bi_genre found # rest"
        using fv
        by (auto simp: first_volume_def py_index_0 dict_get_def
            split: option.splits list.splits sum.splits if_splits)
      have r: "bi_title found = (case vi_title info of None \<Rightarrow> title | Some t \<Rightarrow> t) \<and>
          bi_description found =
            (case vi_description info of None \<Rightarrow> ''No description available'' | Some d \<Rightarrow> d) \<and>
          bi_thumbnail found = (case vi_imageLinks info of None \<Rightarrow> None | Some t \<Rightarrow> t)"
        using fv
        by (auto simp: first_volume_def py_index_0 dict_get_def
            split: option.splits list.splits sum.splits if_splits)
      show ?thesis
        using a c r \<open>data = Some items\<close> Cons Some by blast
    qed
  qed
qed

lemma metadata_pages:
  "(extract_try stem file = Inl e \<longrightarrow> md_pages (fst (extract_pdf_metadata stem file)) = 0) \<and>
   (file = Opened reader \<and> extract_try stem file = Inr m \<longrightarrow>
      md_pages (fst (extract_pdf_metadata stem file)) = length (pages reader))"
proof (intro conjI impI)
  assume "extract_try stem file = Inl e"
  then show "md_pages (fst (extract_pdf_metadata stem file)) = 0"
    by (simp add: extract_pdf_metadata_raises)
next
  assume a: "file = Opened reader \<and> extract_try stem file = Inr m"
  then obtain reader' t info where "file = Opened reader'"
    and f: "first_page_text_of reader' = Inr t" and i: "metadata reader' = Some info"
    by (meson extract_try_Inr)
  then have "reader' = reader"
    using a by simp
  then show "md_pages (fst (extract_pdf_metadata stem file)) = length (pages reader)"
    using a f i by (simp add: extract_pdf_metadata_ok)
qed

text \<open>
  Claim C5, as amended. The claim that every field of every entry is populated with a
  non-empty value fails: the keyword-bucket path sets the thumbnail to \<open>None\<close>, and a
  catalog match is taken as it is (the closed instances follow the theorem). What
  holds, for a non-empty base name: a resume entry has a non-empty title, author and
  description, the genre "Resume/CV" and the default resume icon as thumbnail; an entry
  that is no resume and has no catalog match has a non-empty title, author and
  description and one of the genres Business, Technology, Science, Education, Document,
  with the default document icon as thumbnail for "Document" and \<open>None\<close> for the four
  keyword buckets; an entry that comes from a catalog match has, for each field, the
  catalog's value when the match has the key and otherwise the fallback: the local
  title, the local author (both non-empty), "Uncategorized", "No description
  available", and \<open>None\<close> for the thumbnail. The page count is 0 after a failed
  extraction and the number of pages of the PDF otherwise.
\<close>

theorem entry_fields_populated:
  assumes "stem \<noteq> []"
    and "md = fst (extract_pdf_metadata stem file)"
    and "book = fst (upload_book api_key requests_get file_path stem file)"
  shows "(md_is_resume md \<longrightarrow>
       bd_title book \<noteq> [] \<and> bd_author book \<noteq> [] \<and> bd_description book \<noteq> [] \<and>
       bd_genre book = ''Resume/CV'' \<and>
       bd_thumbnail book = Some ''https://cdn-icons-png.flaticon.com/512/3135/3135692.png'') \<and>
     (\<not> md_is_resume md \<and>
      (\<forall>found. catalog_lookup api_key requests_get (md_title md) (md_author md)
          \<noteq> Inr (Some found)) \<longrightarrow>
       bd_title book \<noteq> [] \<and> bd_author book \<noteq> [] \<and> bd_description book \<noteq> [] \<and>
       bd_genre book \<in> {''Business'', ''Technology'', ''Science'', ''Education'', ''Document''} \<and>
       (bd_genre book = ''Document'' \<longrightarrow>
          bd_thumbnail book = Some ''https://cdn-icons-png.flaticon.com/512/337/337946.png'') \<and>
       (bd_genre book \<noteq> ''Document'' \<longrightarrow> bd_thumbnail book = None)) \<and>
     (\<forall>found. \<not> md_is_resume md \<and>
        catalog_lookup api_key requests_get (md_title md) (md_author md) = Inr (Some found) \<longrightarrow>
        md_title md \<noteq> [] \<and> md_author md \<noteq> [] \<and>
        (\<exists>info rest.
           requests_get (books_url api_key (md_title md) (md_author md)) =
             Inr (Some (Some info # rest)) \<and>
           bd_title book = (case vi_title info of None \<Rightarrow> md_title md | Some t \<Rightarrow> t) \<and>
           (case vi_authors info of
              None \<Rightarrow> bd_author book = md_author md
            | Some authors \<Rightarrow> \<exists>others. authors = bd_author book # others) \<and>
           (case vi_categories info of
              None \<Rightarrow> bd_genre book = ''Uncategorized''
            | Some cats \<Rightarrow> \<exists>others. cats = bd_genre book # others) \<and>
           bd_description book =
             (case vi_description info of
                None \<Rightarrow> ''No description available''
              | Some d \<Rightarrow> d) \<and>
           bd_thumbnail book = (case vi_imageLinks info of None \<Rightarrow> None | Some t \<Rightarrow> t))) \<and>
     (\<forall>e. extract_try stem file = Inl e \<longrightarrow> bd_pages book = 0) \<and>
     (\<forall>reader m. file = Opened reader \<and> extract_try stem file = Inr m \<longrightarrow>
        bd_pages book = length (pages reader))"
proof -
  have ne: "md_title md \<noteq> []" "md_author md \<noteq> []"
    using metadata_nonempty [OF assms(1), of "file"] assms(2) by simp_all
  let ?info = "fst (fetch_book_info api_key requests_get (md_title md) (md_author md)
      (md_content_preview md) (md_is_resume md))"
  have book: "book = \<lparr>bd_file_path = file_path, bd_title = bi_title ?info,
      bd_author = bi_author ?info, bd_genre = bi_genre ?info, bd_pages = md_pages md,
      bd_description = bi_description ?info, bd_thumbnail = bi_thumbnail ?info\<rparr>"
    unfolding assms(2,3) by (rule upload_book_fields)
  have b: "bd_title book = bi_title ?info" "bd_author book = bi_author ?info"
    "bd_genre book = bi_genre ?info" "bd_description book = bi_description ?info"
    "bd_thumbnail book = bi_thumbnail ?info" "bd_pages book = md_pages md"
    unfolding book by simp_all
  have resume: "md_is_resume md \<longrightarrow>
       bd_title book \<noteq> [] \<and> bd_author book \<noteq> [] \<and> bd_description book \<noteq> [] \<and>
       bd_genre book = ''Resume/CV'' \<and>
       bd_thumbnail book = Some ''https://cdn-icons-png.flaticon.com/512/3135/3135692.png''"
    unfolding b using ne by (simp add: fetch_book_info_def)
  have bucket: "\<not> md_is_resume md \<and>
      (\<forall>found. catalog_lookup api_key requests_get (md_title md) (md_author md)
          \<noteq> Inr (Some found)) \<longrightarrow>
       bd_title book \<noteq> [] \<and> bd_author book \<noteq> [] \<and> bd_description book \<noteq> [] \<and>
       bd_genre book \<in> {''Business'', ''Technology'', ''Science'', ''Education'', ''Document''} \<and>
       (bd_genre book = ''Document'' \<longrightarrow>
          bd_thumbnail book = Some ''https://cdn-icons-png.flaticon.com/512/337/337946.png'') \<and>
       (bd_genre book \<noteq> ''Document'' \<longrightarrow> bd_thumbnail book = None)"
  proof
    assume a: "\<not> md_is_resume md \<and>
      (\<forall>found. catalog_lookup api_key requests_get (md_title md) (md_author md)
          \<noteq> Inr (Some found))"
    then have cat: "?info = categorize (md_title md) (md_author md) (md_content_preview md)"
      using fetch_book_info_fallback [of api_key requests_get "md_title md" "md_author md"] by simp
    let ?c = "categorize (md_title md) (md_author md) (md_content_preview md)"
    have f: "bi_title ?c = md_title md" "bi_author ?c = md_author md"
      "bi_description ?c = take 200 (md_content_preview md) @ ''...''"
      "bi_genre ?c \<in> {''Business'', ''Technology'', ''Science'', ''Education'', ''Document''}"
      "bi_thumbnail ?c = None \<longleftrightarrow>
         bi_genre ?c \<in> {''Business'', ''Technology'', ''Science'', ''Education''}"
      "bi_thumbnail ?c \<noteq> None \<longrightarrow>
         bi_thumbnail ?c = Some ''https://cdn-icons-png.flaticon.com/512/337/337946.png''"
      using categorize_fields [of "md_title md" "md_author md" "md_content_preview md"]
      by blast+
    have doc: "''Document'' \<notin> {''Business'', ''Technology'', ''Science'', ''Education''}"
      by simp
    have t1: "bi_genre ?c = ''Document'' \<longrightarrow>
        bi_thumbnail ?c = Some ''https://cdn-icons-png.flaticon.com/512/337/337946.png''"
      using f(5,6) doc by metis
    have t2: "bi_genre ?c \<noteq> ''Document'' \<longrightarrow> bi_thumbnail ?c = None"
      using f(4,5) by blast
    show "bd_title book \<noteq> [] \<and> bd_author book \<noteq> [] \<and> bd_description book \<noteq> [] \<and>
       bd_genre book \<in> {''Business'', ''Technology'', ''Science'', ''Education'', ''Document''} \<and>
       (bd_genre book = ''Document'' \<longrightarrow>
          bd_thumbnail book = Some ''https://cdn-icons-png.flaticon.com/512/337/337946.png'') \<and>
       (bd_genre book \<noteq> ''Document'' \<longrightarrow> bd_thumbnail book = None)"
      unfolding b cat using ne f(1,2,3,4) t1 t2 by simp
  qed
  have catalog: "\<forall>found. \<not> md_is_resume md \<and>
        catalog_lookup api_key requests_get (md_title md) (md_author md) = Inr (Some found) \<longrightarrow>
        md_title md \<noteq> [] \<and> md_author md \<noteq> [] \<and>
        (\<exists>info rest.
           requests_get (books_url api_key (md_title md) (md_author md)) =
             Inr (Some (Some info # rest)) \<and>
           bd_title book = (case vi_title info of None \<Rightarrow> md_title md | Some t \<Rightarrow> t) \<and>
           (case vi_authors info of
              None \<Rightarrow> bd_author book = md_author md
            | Some authors \<Rightarrow> \<exists>others. authors = bd_author book # others) \<and>
           (case vi_categories info of
              None \<Rightarrow> bd_genre book = ''Uncategorized''
            | Some cats \<Rightarrow> \<exists>others. cats = bd_genre book # others) \<and>
           bd_description book =
             (case vi_description info of
                None \<Rightarrow> ''No description available''
              | Some d \<Rightarrow> d) \<and>
           bd_thumbnail book = (case vi_imageLinks info of None \<Rightarrow> None | Some t \<Rightarrow> t))"
  proof (intro allI impI)
    fix found
    assume hit: "\<not> md_is_resume md \<and>
        catalog_lookup api_key requests_get (md_title md) (md_author md) = Inr (Some found)"
    have info: "?info = found"
      using hit by (simp add: fetch_book_info_def)
    obtain data where get: "requests_get (books_url api_key (md_title md) (md_author md)) = Inr data"
      and fv: "first_volume (md_title md) (md_author md) data = Inr (Some found)"
      using hit by (auto simp: catalog_lookup_def split: sum.splits)
    obtain entry rest where d: "data = Some (Some entry # rest)"
      and f: "bi_title found = (case vi_title entry of None \<Rightarrow> md_title md | Some t \<Rightarrow> t)"
        "case vi_authors entry of
            None \<Rightarrow> bi_author found = md_author md
          | Some authors \<Rightarrow> \<exists>others. authors = bi_author found # others"
        "case vi_categories entry of
            None \<Rightarrow> bi_genre found = ''Uncategorized''
          | Some cats \<Rightarrow> \<exists>others. cats = bi_genre found # others"
        "bi_description found =
           (case vi_description entry of None \<Rightarrow> ''No description available'' | Some d \<Rightarrow> d)"
        "bi_thumbnail found = (case vi_imageLinks entry of None \<Rightarrow> None | Some t \<Rightarrow> t)"
      using first_volume_found [OF fv] by blast
    have ex: "\<exists>info rest.
           requests_get (books_url api_key (md_title md) (md_author md)) =
             Inr (Some (Some info # rest)) \<and>
           bd_title book = (case vi_title info of None \<Rightarrow> md_title md | Some t \<Rightarrow> t) \<and>
           (case vi_authors info of
              None \<Rightarrow> bd_author book = md_author md
            | Some authors \<Rightarrow> \<exists>others. authors = bd_author book # others) \<and>
           (case vi_categories info of
              None \<Rightarrow> bd_genre book = ''Uncategorized''
            | Some cats \<Rightarrow> \<exists>others. cats = bd_genre book # others) \<and>
           bd_description book =
             (case vi_description info of
                None \<Rightarrow> ''No description available''
              | Some d \<Rightarrow> d) \<and>
           bd_thumbnail book = (case vi_imageLinks info of None \<Rightarrow> None | Some t \<Rightarrow> t)"
      apply (rule exI [of _ entry])
      apply (rule exI [of _ rest])
      unfolding b info
      using get d f apply simp
      done
    show "md_title md \<noteq> [] \<and> md_author md \<noteq> [] \<and>
        (\<exists>info rest.
           requests_get (books_url api_key (md_title md) (md_author md)) =
             Inr (Some (Some info # rest)) \<and>
           bd_title book = (case vi_title info of None \<Rightarrow> md_title md | Some t \<Rightarrow> t) \<and>
           (case vi_authors info of
              None \<Rightarrow> bd_author book = md_author md
            | Some authors \<Rightarrow> \<exists>others. authors = bd_author book # others) \<and>
           (case vi_categories info of
              None \<Rightarrow> bd_genre book = ''Uncategorized''
            | Some cats \<Rightarrow> \<exists>others. cats = bd_genre book # others) \<and>
           bd_description book =
             (case vi_description info of
                None \<Rightarrow> ''No description available''
              | Some d \<Rightarrow> d) \<and>
           bd_thumbnail book = (case vi_imageLinks info of None \<Rightarrow> None | Some t \<Rightarrow> t))"
      using ne ex by (intro conjI)
  qed
  have pages0: "\<forall>e. extract_try stem file = Inl e \<longrightarrow> bd_pages book = 0"
    unfolding b assms(2) using metadata_pages [of stem "file"] by blast
  have pagesn: "\<forall>reader m. file = Opened reader \<and> extract_try stem file = Inr m \<longrightarrow>
        bd_pages book = length (pages reader)"
    unfolding b assms(2) using metadata_pages [of stem "file"] by blast
  show ?thesis
    using resume bucket catalog pages0 pagesn by (intro conjI)
qed

theorem entry_fields_populated_witness:
  "bd_title (fst (upload_book ''K'' (\<lambda>url. Inl RequestException) ''uploads/plan.pdf'' ''plan''
      (Opened \<lparr>metadata = Some \<lparr>info_title = Some ''Plan'', info_author = None\<rparr>,
               pages = [Inr ''A business plan'']\<rparr>))) \<noteq> [] \<and>
   bd_author (fst (upload_book ''K'' (\<lambda>url. Inl RequestException) ''uploads/plan.pdf'' ''plan''
      (Opened \<lparr>metadata = Some \<lparr>info_title = Some ''Plan'', info_author = None\<rparr>,
               pages = [Inr ''A business plan'']\<rparr>))) \<noteq> [] \<and>
   bd_description (fst (upload_book ''K'' (\<lambda>url. Inl RequestException) ''uploads/plan.pdf'' ''plan''
      (Opened \<lparr>metadata = Some \<lparr>info_title = Some ''Plan'', info_author = None\<rparr>,
               pages = [Inr ''A business plan'']\<rparr>))) \<noteq> [] \<and>
   bd_genre (fst (upload_book ''K'' (\<lambda>url. Inl RequestException) ''uploads/plan.pdf'' ''plan''
      (Opened \<lparr>metadata = Some \<lparr>info_title = Some ''Plan'', info_author = None\<rparr>,
               pages = [Inr ''A business plan'']\<rparr>))) = ''Business'' \<and>
   bd_thumbnail (fst (upload_book ''K'' (\<lambda>url. Inl RequestException) ''uploads/plan.pdf'' ''plan''
      (Opened \<lparr>metadata = Some \<lparr>info_title = Some ''Plan'', info_author = None\<rparr>,
               pages = [Inr ''A business plan'']\<rparr>))) = None \<and>
   bd_pages (fst (upload_book ''K'' (\<lambda>url. Inl RequestException) ''uploads/plan.pdf'' ''plan''
      (Opened \<lparr>metadata = Some \<lparr>info_title = Some ''Plan'', info_author = None\<rparr>,
               pages = [Inr ''A business plan'']\<rparr>))) = 1 \<and>
   bd_title (fst (upload_book ''K''
      (\<lambda>url. Inr (Some [Some \<lparr>vi_title = Some ''The Plan'', vi_authors = None,
                               vi_categories = None, vi_description = None,
                               vi_imageLinks = None\<rparr>]))
      ''uploads/plan.pdf'' ''plan''
      (Opened \<lparr>metadata = Some \<lparr>info_title = Some ''Plan'', info_author = None\<rparr>,
               pages = [Inr ''A business plan'']\<rparr>))) = ''The Plan'' \<and>
   bd_genre (fst (upload_book ''K''
      (\<lambda>url. Inr (Some [Some \<lparr>vi_title = Some ''The Plan'', vi_authors = None,
                               vi_categories = None, vi_description = None,
                               vi_imageLinks = None\<rparr>]))
      ''uploads/plan.pdf'' ''plan''
      (Opened \<lparr>metadata = Some \<lparr>info_title = Some ''Plan'', info_author = None\<rparr>,
               pages = [Inr ''A business plan'']\<rparr>))) = ''Uncategorized'' \<and>
   bd_description (fst (upload_book ''K''
      (\<lambda>url. Inr (Some [Some \<lparr>vi_title = Some ''The Plan'', vi_authors = None,
                               vi_categories = None, vi_description = None,
                               vi_imageLinks = None\<rparr>]))
      ''uploads/plan.pdf'' ''plan''
      (Opened \<lparr>metadata = Some \<lparr>info_title = Some ''Plan'', info_author = None\<rparr>,
               pages = [Inr ''A business plan'']\<rparr>))) = ''No description available'' \<and>
   bd_thumbnail (fst (upload_book ''K''
      (\<lambda>url. Inr (Some [Some \<lparr>vi_title = Some ''The Plan'', vi_authors = None,
                               vi_categories = None, vi_description = None,
                               vi_imageLinks = None\<rparr>]))
      ''uploads/plan.pdf'' ''plan''
      (Opened \<lparr>metadata = Some \<lparr>info_title = Some ''Plan'', info_author = None\<rparr>,
               pages = [Inr ''A business plan'']\<rparr>))) = None \<and>
   bd_pages (fst (upload_book ''K'' (\<lambda>url. Inl RequestException) ''uploads/plan.pdf'' ''plan''
      (Open_raises PdfReadError))) = 0 \<and>
   bd_genre (fst (upload_book ''K'' (\<lambda>url. Inl RequestException) ''uploads/plan.pdf'' ''plan''
      (Open_raises PdfReadError))) = ''Document'' \<and>
   bd_thumbnail (fst (upload_book ''K'' (\<lambda>url. Inl RequestException) ''uploads/plan.pdf'' ''plan''
      (Open_raises PdfReadError))) = Some ''https://cdn-icons-png.flaticon.com/512/337/337946.png''"
proof -
  let ?file = "Opened \<lparr>metadata = Some \<lparr>info_title = Some ''Plan'', info_author = None\<rparr>,
               pages = [Inr ''A business plan'']\<rparr>"
  let ?fails = "\<lambda>url :: string. Inl RequestException :: py_error + books_response"
  let ?get = "\<lambda>url :: string. Inr (Some [Some \<lparr>vi_title = Some ''The Plan'', vi_authors = None,
                               vi_categories = None, vi_description = None,
                               vi_imageLinks = None\<rparr>]) :: py_error + books_response"
  let ?md = "fst (extract_pdf_metadata ''plan'' ?file)"
  let ?a = "fst (upload_book ''K'' ?fails ''uploads/plan.pdf'' ''plan'' ?file)"
  let ?b = "fst (upload_book ''K'' ?get ''uploads/plan.pdf'' ''plan'' ?file)"
  let ?c = "fst (upload_book ''K'' ?fails ''uploads/plan.pdf'' ''plan'' (Open_raises PdfReadError))"
  have s: "''plan'' \<noteq> []"
    by simp
  have none: "\<forall>found. catalog_lookup ''K'' ?fails t a \<noteq> Inr (Some found)" for t a
    by (simp add: catalog_lookup_def)
  have plain: "\<not> md_is_resume ?md"
    by code_simp
  have genre: "bd_genre ?a = ''Business''"
    by code_simp
  have differs: "''Business'' \<noteq> ''Document''"
    by simp
  have bucket: "bd_title ?a \<noteq> [] \<and> bd_author ?a \<noteq> [] \<and> bd_description ?a \<noteq> [] \<and>
      bd_thumbnail ?a = None"
    using entry_fields_populated [OF s refl refl, of ?file "''K''" ?fails "''uploads/plan.pdf''"]
      none plain genre differs
    by metis
  have pages: "bd_pages ?a = 1"
    by code_simp
  have look: "catalog_lookup ''K'' ?get (md_title ?md) (md_author ?md) =
      Inr (Some \<lparr>bi_title = ''The Plan'', bi_author = ''Unknown'', bi_genre = ''Uncategorized'',
                  bi_description = ''No description available'', bi_thumbnail = None\<rparr>)"
    by code_simp
  have "\<exists>info rest.
      ?get (books_url ''K'' (md_title ?md) (md_author ?md)) = Inr (Some (Some info # rest)) \<and>
      bd_title ?b = (case vi_title info of None \<Rightarrow> md_title ?md | Some t \<Rightarrow> t) \<and>
      (case vi_categories info of
         None \<Rightarrow> bd_genre ?b = ''Uncategorized''
       | Some cats \<Rightarrow> \<exists>others. cats = bd_genre ?b # others) \<and>
      bd_description ?b =
        (case vi_description info of None \<Rightarrow> ''No description available'' | Some d \<Rightarrow> d) \<and>
      bd_thumbnail ?b = (case vi_imageLinks info of None \<Rightarrow> None | Some t \<Rightarrow> t)"
    using entry_fields_populated [OF s refl refl, of ?file "''K''" ?get "''uploads/plan.pdf''"]
      plain look
    by blast
  then have match: "bd_title ?b = ''The Plan'' \<and> bd_genre ?b = ''Uncategorized'' \<and>
      bd_description ?b = ''No description available'' \<and> bd_thumbnail ?b = None"
    by auto
  have raised: "extract_try ''plan'' (Open_raises PdfReadError) = Inl PdfReadError"
    by (rule extract_try_open_raises)
  have failed: "bd_pages ?c = 0"
    using entry_fields_populated [OF s refl refl, of "Open_raises PdfReadError" "''K''" ?fails
        "''uploads/plan.pdf''"] raised
    by blast
  have document: "bd_genre ?c = ''Document'' \<and>
      bd_thumbnail ?c = Some ''https://cdn-icons-png.flaticon.com/512/337/337946.png''"
    by code_simp
  show ?thesis
    using bucket genre pages match failed document by (intro conjI) simp_all
qed

theorem entry_fields_counterexample:
  "bd_thumbnail (fst (upload_book ''K'' (\<lambda>url. Inl RequestException) ''uploads/plan.pdf'' ''plan''
      (Opened \<lparr>metadata = Some \<lparr>info_title = Some ''Plan'', info_author = None\<rparr>,
               pages = [Inr ''A business plan'']\<rparr>))) = None \<and>
   bd_description (fst (upload_book ''K''
      (\<lambda>url. Inr (Some [Some \<lparr>vi_title = Some ''Plan'', vi_authors = None, vi_categories = None,
                               vi_description = Some [], vi_imageLinks = None\<rparr>]))
      ''uploads/plan.pdf'' ''plan''
      (Opened \<lparr>metadata = Some \<lparr>info_title = Some ''Plan'', info_author = None\<rparr>,
               pages = [Inr ''A business plan'']\<rparr>))) = [] \<and>
   bd_thumbnail (fst (upload_book ''K''
      (\<lambda>url. Inr (Some [Some \<lparr>vi_title = Some ''Plan'', vi_authors = None, vi_categories = None,
                               vi_description = Some [], vi_imageLinks = None\<rparr>]))
      ''uploads/plan.pdf'' ''plan''
      (Opened \<lparr>metadata = Some \<lparr>info_title = Some ''Plan'', info_author = None\<rparr>,
               pages = [Inr ''A business plan'']\<rparr>))) = None"
  by code_simp

end
